theory Spec2Isabelle
  imports Complex_Main "HOL-Library.Char_ord" "HOL-Library.List_Lexorder" "HOL-Library.Sublist"
begin

section \<open>JavaScript values used by the routes\<close>

text \<open>
  The server is an Express application (\<^verbatim>\<open>server/routes/user.js\<close>,
  \<^verbatim>\<open>server/middleware/auth.js\<close>, \<^verbatim>\<open>server/models/User.js\<close>). Query-string
  parameters arrive as strings or are absent (\<^verbatim>\<open>undefined\<close>), so a parameter is a
  \<open>string option\<close>; a parameter that the query parser turns into an array or an object
  is outside the model. A string is the list of the bytes of its UTF-8 encoding; letter
  case is that of ASCII.
\<close>

definition truthy :: "string option \<Rightarrow> bool" where
  \<comment> \<open>JavaScript truthiness of a value that is a string or \<^verbatim>\<open>undefined\<close>.\<close>
  "truthy v = (case v of None \<Rightarrow> False | Some s \<Rightarrow> s \<noteq> [])"

definition js_string :: "string option \<Rightarrow> string" where
  \<comment> \<open>\<^verbatim>\<open>String(v)\<close>, the conversion \<^verbatim>\<open>parseInt\<close> applies to its argument.\<close>
  "js_string v = (case v of None \<Rightarrow> ''undefined'' | Some s \<Rightarrow> s)"

subsection \<open>Numbers\<close>

text \<open>
  A JavaScript number is a double. An integer of magnitude below \<open>2 ^ 53\<close> (a safe
  integer) is held exactly, and differences and products of such integers are exact as
  long as the result is in that range. \<open>Num n\<close> is such an integer (\<open>0\<close> and \<open>-0\<close> are
  not told apart). \<open>Beyond\<close> is a number that the model does not determine: an integer
  of larger magnitude, which the code holds rounded, an infinity, or what arithmetic
  makes of these, which may be \<^verbatim>\<open>NaN\<close>.
\<close>

datatype number = NaN | Num int | Beyond

definition to_number :: "int \<Rightarrow> number" where
  "to_number n = (if \<bar>n\<bar> \<le> 9007199254740991 then Num n else Beyond)"

definition num_sub :: "number \<Rightarrow> number \<Rightarrow> number" where
  \<comment> \<open>\<^verbatim>\<open>a - b\<close>\<close>
  "num_sub a b =
     (case (a, b) of
        (Num x, Num y) \<Rightarrow> to_number (x - y)
      | (NaN, _) \<Rightarrow> NaN
      | (_, NaN) \<Rightarrow> NaN
      | _ \<Rightarrow> Beyond)"

definition num_mul :: "number \<Rightarrow> number \<Rightarrow> number" where
  \<comment> \<open>\<^verbatim>\<open>a * b\<close>\<close>
  "num_mul a b =
     (case (a, b) of
        (Num x, Num y) \<Rightarrow> to_number (x * y)
      | (NaN, _) \<Rightarrow> NaN
      | (_, NaN) \<Rightarrow> NaN
      | _ \<Rightarrow> Beyond)"

definition num_ceil_div :: "number \<Rightarrow> number \<Rightarrow> number" where
  \<comment> \<open>\<^verbatim>\<open>Math.ceil(a / b)\<close>. For safe integers and \<open>b\<close> not zero, rounding the quotient
      to a double does not change what \<^verbatim>\<open>Math.ceil\<close> gives: a quotient that is not
      an integer is at least \<open>1 / \<bar>b\<bar>\<close> away from the integers, and rounding moves it
      by at most \<open>\<bar>a / b\<bar> / 2 ^ 53\<close>, which is less. A division by zero gives an
      infinity or \<^verbatim>\<open>NaN\<close>.\<close>
  "num_ceil_div a b =
     (case (a, b) of
        (Num x, Num y) \<Rightarrow>
          if y = 0 then Beyond else Num \<lceil>real_of_int x / real_of_int y\<rceil>
      | (NaN, _) \<Rightarrow> NaN
      | (_, NaN) \<Rightarrow> NaN
      | _ \<Rightarrow> Beyond)"

subsection \<open>White space\<close>

text \<open>
  The characters that \<^verbatim>\<open>parseInt\<close> skips and \<^verbatim>\<open>String.prototype.trim\<close> strips:
  tab, line feed, vertical tab, form feed, carriage return and space, which are one byte
  each; U+00A0, which is two bytes; and U+1680, U+2000 to U+200A, U+2028, U+2029, U+202F,
  U+205F, U+3000 and U+FEFF, which are three bytes each.
\<close>

definition is_ws :: "char \<Rightarrow> bool" where
  "is_ws c \<longleftrightarrow> c \<in> set [CHR 0x09, CHR 0x0A, CHR 0x0B, CHR 0x0C, CHR 0x0D, CHR '' '']"

definition is_ws2 :: "char \<Rightarrow> char \<Rightarrow> bool" where
  "is_ws2 a b \<longleftrightarrow> a = CHR 0xC2 \<and> b = CHR 0xA0"

definition is_ws3 :: "char \<Rightarrow> char \<Rightarrow> char \<Rightarrow> bool" where
  "is_ws3 a b c \<longleftrightarrow>
     a = CHR 0xE1 \<and> b = CHR 0x9A \<and> c = CHR 0x80
     \<or> a = CHR 0xE2 \<and> b = CHR 0x80
         \<and> c \<in> set [CHR 0x80, CHR 0x81, CHR 0x82, CHR 0x83, CHR 0x84, CHR 0x85, CHR 0x86,
                      CHR 0x87, CHR 0x88, CHR 0x89, CHR 0x8A, CHR 0xA8, CHR 0xA9, CHR 0xAF]
     \<or> a = CHR 0xE2 \<and> b = CHR 0x81 \<and> c = CHR 0x9F
     \<or> a = CHR 0xE3 \<and> b = CHR 0x80 \<and> c = CHR 0x80
     \<or> a = CHR 0xEF \<and> b = CHR 0xBB \<and> c = CHR 0xBF"

fun strip_ws :: "bool \<Rightarrow> string \<Rightarrow> string" where
  \<comment> \<open>the string without its leading white space; with \<open>back\<close> the bytes are read in
      reverse order, from the end of a string\<close>
  "strip_ws back (a # b # c # s) =
     (if (if back then is_ws3 c b a else is_ws3 a b c) then strip_ws back s
      else if (if back then is_ws2 b a else is_ws2 a b) then strip_ws back (c # s)
      else if is_ws a then strip_ws back (b # c # s)
      else a # b # c # s)"
| "strip_ws back [a, b] =
     (if (if back then is_ws2 b a else is_ws2 a b) then []
      else if is_ws a then strip_ws back [b]
      else [a, b])"
| "strip_ws back [a] = (if is_ws a then [] else [a])"
| "strip_ws back [] = []"

definition trim :: "string \<Rightarrow> string" where
  \<comment> \<open>\<^verbatim>\<open>String.prototype.trim\<close>\<close>
  "trim s = rev (strip_ws True (rev (strip_ws False s)))"

definition js_length :: "string \<Rightarrow> nat" where
  \<comment> \<open>\<^verbatim>\<open>s.length\<close>, the number of UTF-16 code units: one for each character of one to
      three bytes, two for each character of four bytes\<close>
  "js_length s =
     length (filter (\<lambda>c. c < CHR 0x80 \<or> CHR 0xC0 \<le> c) s) + length (filter (\<lambda>c. CHR 0xF0 \<le> c) s)"

subsection \<open>\<^verbatim>\<open>parseInt\<close> with no radix argument\<close>

definition digit_val :: "char \<Rightarrow> nat option" where
  "digit_val c =
     map_of (zip ''0123456789abcdef'' [0, 1, 2, 3, 4, 5, 6, 7, 8, 9, 10, 11, 12, 13, 14, 15]
             @ zip ''ABCDEF'' [10, 11, 12, 13, 14, 15]) c"

definition radix_digit :: "nat \<Rightarrow> char \<Rightarrow> nat option" where
  "radix_digit r c =
     (case digit_val c of Some d \<Rightarrow> if d < r then Some d else None | None \<Rightarrow> None)"

fun digits_prefix :: "nat \<Rightarrow> string \<Rightarrow> nat list" where
  "digits_prefix r [] = []"
| "digits_prefix r (c # cs) =
     (case radix_digit r c of Some d \<Rightarrow> d # digits_prefix r cs | None \<Rightarrow> [])"

definition digits_value :: "nat \<Rightarrow> nat list \<Rightarrow> int" where
  "digits_value r ds = foldl (\<lambda>acc d. acc * int r + int d) 0 ds"

definition parseInt :: "string \<Rightarrow> number" where
  \<comment> \<open>Leading white space is skipped, a sign is read, a \<^verbatim>\<open>0x\<close> prefix selects radix
      16, and the longest prefix of digits is the value; with no digit the result is
      \<^verbatim>\<open>NaN\<close>.\<close>
  "parseInt s =
     (let s1 = strip_ws False s;
          neg = (case s1 of c # _ \<Rightarrow> c = CHR ''-'' | [] \<Rightarrow> False);
          s2 = (case s1 of c # cs \<Rightarrow> if c = CHR ''+'' \<or> c = CHR ''-'' then cs else s1
                | [] \<Rightarrow> s1);
          hex = (take 2 s2 = ''0x'' \<or> take 2 s2 = ''0X'');
          r = (if hex then 16 else 10);
          s3 = (if hex then drop 2 s2 else s2);
          ds = digits_prefix r s3
      in if ds = [] then NaN
         else to_number ((if neg then - 1 else 1) * digits_value r ds))"

definition js_or :: "number \<Rightarrow> int \<Rightarrow> number" where
  \<comment> \<open>\<^verbatim>\<open>n || d\<close> for a result \<open>n\<close> of \<^verbatim>\<open>parseInt\<close>: \<^verbatim>\<open>NaN\<close> and \<open>0\<close> are falsy;
      a result that is no safe integer is neither.\<close>
  "js_or n d = (case n of NaN \<Rightarrow> Num d | Num k \<Rightarrow> if k = 0 then Num d else Num k
                | Beyond \<Rightarrow> Beyond)"

subsection \<open>\<^verbatim>\<open>String.prototype.split\<close> on a one-character separator\<close>

fun split_on :: "char \<Rightarrow> string \<Rightarrow> string list" where
  "split_on d [] = [[]]"
| "split_on d (c # cs) =
     (if c = d then [] # split_on d cs
      else (case split_on d cs of w # ws \<Rightarrow> (c # w) # ws | [] \<Rightarrow> [[c]]))"

definition index_opt :: "'a list \<Rightarrow> nat \<Rightarrow> 'a option" where
  \<comment> \<open>\<^verbatim>\<open>xs[i]\<close>, \<^verbatim>\<open>undefined\<close> out of range.\<close>
  "index_opt xs i = (if i < length xs then Some (xs ! i) else None)"

section \<open>The query string and the two helpers of \<^verbatim>\<open>routes/user.js\<close>\<close>

record req_query =
  q_page :: "string option"
  q_limit :: "string option"
  q_search :: "string option"
  q_role :: "string option"
  q_active :: "string option"
  q_sort :: "string option"

text \<open>
  The filter object \<^verbatim>\<open>buildQuery\<close> returns. \<open>or_regex = Some p\<close> stands for
  \<^verbatim>\<open>$or: [{name: {$regex: p, $options: 'i'}}, {email: {$regex: p, $options: 'i'}}]\<close>,
  \<open>role_eq\<close> for the key \<^verbatim>\<open>role\<close> and \<open>isActive_eq\<close> for the key \<^verbatim>\<open>isActive\<close>;
  \<open>None\<close> means the key is not set.
\<close>

record mquery =
  or_regex :: "string option"
  role_eq :: "string option"
  isActive_eq :: "bool option"

definition buildQuery :: "req_query \<Rightarrow> mquery" where
  "buildQuery q =
     \<lparr> or_regex = (if truthy (q_search q) then q_search q else None),
       role_eq = (if truthy (q_role q) then q_role q else None),
       isActive_eq = (case q_active q of None \<Rightarrow> None | Some a \<Rightarrow> Some (a = ''true'')) \<rparr>"

record pagination_sort =
  skip :: number
  limit :: number
  sortBy :: "string \<times> int"

definition page_param :: "req_query \<Rightarrow> number" where
  \<comment> \<open>\<^verbatim>\<open>parseInt(req.query.page) || 1\<close>\<close>
  "page_param q = js_or (parseInt (js_string (q_page q))) 1"

definition limit_param :: "req_query \<Rightarrow> number" where
  \<comment> \<open>\<^verbatim>\<open>parseInt(req.query.limit) || 10\<close>\<close>
  "limit_param q = js_or (parseInt (js_string (q_limit q))) 10"

definition sort_param :: "req_query \<Rightarrow> string \<times> int" where
  "sort_param q =
     (if truthy (q_sort q)
      then (let parts = split_on (CHR '':'') (js_string (q_sort q))
            in (case index_opt parts 0 of Some f \<Rightarrow> f | None \<Rightarrow> ''undefined'',
                if index_opt parts 1 = Some ''desc'' then - 1 else 1))
      else (''createdAt'', - 1))"

definition getPaginationSort :: "req_query \<Rightarrow> pagination_sort" where
  "getPaginationSort q =
     (let page = page_param q;
          limit = limit_param q;
          skip = num_mul (num_sub page (Num 1)) limit;
          sort = sort_param q
      in \<lparr> skip = skip, limit = limit, sortBy = sort \<rparr>)"

section \<open>Regular expressions\<close>

text \<open>
  The schema of \<^verbatim>\<open>models/User.js\<close> validates the email with a regular expression, and
  the search clause of \<^verbatim>\<open>buildQuery\<close> hands the search term to the store as a regular
  expression. Expressions are matched by taking derivatives, one character at a time.
\<close>

datatype rexp =
  Nothing
  | Empty
  | Class "char \<Rightarrow> bool"
  | Alt rexp rexp
  | Seq rexp rexp
  | Rep rexp

fun nullable :: "rexp \<Rightarrow> bool" where
  "nullable Nothing = False"
| "nullable Empty = True"
| "nullable (Class f) = False"
| "nullable (Alt r s) = (nullable r \<or> nullable s)"
| "nullable (Seq r s) = (nullable r \<and> nullable s)"
| "nullable (Rep r) = True"

fun alt :: "rexp \<Rightarrow> rexp \<Rightarrow> rexp" where
  "alt Nothing s = s"
| "alt r Nothing = r"
| "alt r s = Alt r s"

fun seq :: "rexp \<Rightarrow> rexp \<Rightarrow> rexp" where
  "seq Nothing s = Nothing"
| "seq r Nothing = Nothing"
| "seq Empty s = s"
| "seq r s = Seq r s"

fun deriv :: "char \<Rightarrow> rexp \<Rightarrow> rexp" where
  "deriv c Nothing = Nothing"
| "deriv c Empty = Nothing"
| "deriv c (Class f) = (if f c then Empty else Nothing)"
| "deriv c (Alt r s) = alt (deriv c r) (deriv c s)"
| "deriv c (Seq r s) =
     (if nullable r then alt (seq (deriv c r) s) (deriv c s) else seq (deriv c r) s)"
| "deriv c (Rep r) = seq (deriv c r) (Rep r)"

definition rmatch :: "rexp \<Rightarrow> string \<Rightarrow> bool" where
  \<comment> \<open>the whole string is matched (an expression anchored by \<^verbatim>\<open>^\<close> and \<^verbatim>\<open>$\<close>)\<close>
  "rmatch r s = nullable (foldl (\<lambda>r c. deriv c r) r s)"

fun matches_at :: "rexp \<Rightarrow> string \<Rightarrow> bool" where
  \<comment> \<open>some prefix of the string is matched\<close>
  "matches_at r [] = nullable r"
| "matches_at r (c # cs) = (nullable r \<or> matches_at (deriv c r) cs)"

fun rsearch :: "rexp \<Rightarrow> string \<Rightarrow> bool" where
  \<comment> \<open>an expression with no anchor: a match starts at some position of the string\<close>
  "rsearch r [] = nullable r"
| "rsearch r (c # cs) = (matches_at r (c # cs) \<or> rsearch r cs)"

text \<open>
  What an expression means: the set of the strings it matches. The matchers above are
  shown below to decide membership in this set.
\<close>

definition conc :: "string set \<Rightarrow> string set \<Rightarrow> string set" where
  "conc A B = {u @ v | u v. u \<in> A \<and> v \<in> B}"

inductive_set star :: "string set \<Rightarrow> string set" for A :: "string set" where
  star_nil: "[] \<in> star A"
| star_app: "u \<in> A \<Longrightarrow> v \<in> star A \<Longrightarrow> u @ v \<in> star A"

fun lang :: "rexp \<Rightarrow> string set" where
  "lang Nothing = {}"
| "lang Empty = {[]}"
| "lang (Class f) = {[c] | c. f c}"
| "lang (Alt r s) = lang r \<union> lang s"
| "lang (Seq r s) = conc (lang r) (lang s)"
| "lang (Rep r) = star (lang r)"

definition left_quot :: "char \<Rightarrow> string set \<Rightarrow> string set" where
  "left_quot c A = {w. c # w \<in> A}"

definition some :: "rexp \<Rightarrow> rexp" where
  \<comment> \<open>\<^verbatim>\<open>r+\<close>\<close>
  "some r = Seq r (Rep r)"

definition maybe :: "rexp \<Rightarrow> rexp" where
  \<comment> \<open>\<^verbatim>\<open>r?\<close>\<close>
  "maybe r = Alt Empty r"

definition is_word :: "char \<Rightarrow> bool" where
  \<comment> \<open>\<^verbatim>\<open>\w\<close>\<close>
  "is_word c \<longleftrightarrow>
     c \<in> set ''abcdefghijklmnopqrstuvwxyzABCDEFGHIJKLMNOPQRSTUVWXYZ0123456789_''"

definition to_lower :: "char \<Rightarrow> char" where
  "to_lower c =
     (case map_of (zip ''ABCDEFGHIJKLMNOPQRSTUVWXYZ'' ''abcdefghijklmnopqrstuvwxyz'') c of
        Some l \<Rightarrow> l
      | None \<Rightarrow> c)"

definition toLowerCase :: "string \<Rightarrow> string" where
  "toLowerCase s = map to_lower s"

definition email_rexp :: rexp where
  \<comment> \<open>\<^verbatim>\<open>/^\w+([.-]?\w+)*@\w+([.-]?\w+)*(\.\w{2,3})+$/\<close>\<close>
  "email_rexp =
     (let w = Class is_word;
          sep = Class (\<lambda>c. c = CHR ''.'' \<or> c = CHR ''-'');
          dot = Class (\<lambda>c. c = CHR ''.'');
          atsign = Class (\<lambda>c. c = CHR ''@'');
          words = Seq (some w) (Rep (Seq (maybe sep) (some w)))
      in Seq words (Seq atsign (Seq words (some (Seq dot (Seq w (Seq w (maybe w))))))))"

text \<open>
  The search term is compiled by the store's expression engine, which is not part of the
  repository; the routes take it from their environment. \<open>fragment_match p\<close> is what
  such an engine, with the option \<^verbatim>\<open>i\<close>, does for a pattern \<open>p\<close> of the fragment
  \<open>in_fragment\<close>: ordinary characters, each matching itself in either case, and dots,
  each matching any one character but a line feed. It says nothing of a pattern with
  another metacharacter.
\<close>

definition other_meta :: "char \<Rightarrow> bool" where
  "other_meta c \<longleftrightarrow> c \<in> set (CHR 0x5C # ''^$|?*+()[]{}'')"

definition in_fragment :: "string \<Rightarrow> bool" where
  "in_fragment p \<longleftrightarrow> \<not> list_ex other_meta p"

definition any_char :: rexp where
  \<comment> \<open>one character, of one to four bytes, that is not a line feed\<close>
  "any_char =
     (let cont = Class (\<lambda>x. CHR 0x80 \<le> x \<and> x < CHR 0xC0)
      in Alt (Class (\<lambda>x. x < CHR 0x80 \<and> x \<noteq> CHR 0x0A))
           (Alt (Seq (Class (\<lambda>x. CHR 0xC0 \<le> x \<and> x < CHR 0xE0)) cont)
              (Alt (Seq (Class (\<lambda>x. CHR 0xE0 \<le> x \<and> x < CHR 0xF0)) (Seq cont cont))
                 (Seq (Class (\<lambda>x. CHR 0xF0 \<le> x)) (Seq cont (Seq cont cont))))))"

fun fragment_rexp :: "string \<Rightarrow> rexp" where
  "fragment_rexp [] = Empty"
| "fragment_rexp (c # cs) =
     Seq (if c = CHR ''.'' then any_char else Class (\<lambda>x. to_lower x = to_lower c))
         (fragment_rexp cs)"

definition fragment_match :: "string \<Rightarrow> string \<Rightarrow> bool" where
  "fragment_match p s = rsearch (fragment_rexp p) s"

section \<open>Documents, payloads and the libraries the routes call\<close>

datatype json =
  JNull
  | JBool bool
  | JNum int
  | JStr string
  | JArr "json list"
  | JObj "(string \<times> json) list"
  | JBeyond

definition num_json :: "number \<Rightarrow> json" where
  \<comment> \<open>a number as \<^verbatim>\<open>JSON.stringify\<close> writes it: \<^verbatim>\<open>NaN\<close> and the infinities are
      written \<^verbatim>\<open>null\<close>. \<open>JBeyond\<close> is what is written for a number that the model
      does not determine: some number, or \<^verbatim>\<open>null\<close>.\<close>
  "num_json n = (case n of NaN \<Rightarrow> JNull | Num k \<Rightarrow> JNum k | Beyond \<Rightarrow> JBeyond)"

fun has_key :: "string \<Rightarrow> json \<Rightarrow> bool" where
  \<comment> \<open>some object of the payload, at any depth, has the key\<close>
  "has_key k (JObj kvs) = list_ex (\<lambda>kv. fst kv = k \<or> has_key k (snd kv)) kvs"
| "has_key k (JArr vs) = list_ex (has_key k) vs"
| "has_key k _ = False"

text \<open>
  A document of the collection, with the paths of \<^verbatim>\<open>userSchema\<close> and the two
  timestamps. \<open>password\<close> holds what the store holds, which is the hash. The collection
  is the list of its documents in insertion order.
\<close>

record user =
  uid :: string
  name :: string
  email :: string
  password :: string
  role :: string
  isActive :: bool
  createdAt :: int
  updatedAt :: int

record token =
  claims :: "(string \<times> json) list"
  signed_with :: string

text \<open>
  What the routes take from their environment: the process configuration, the clock, and
  the libraries \<^verbatim>\<open>bcryptjs\<close>, \<^verbatim>\<open>jsonwebtoken\<close> and the store's driver. A token is kept
  symbolic, as its payload and the key it was signed with; \<open>jwt_encode\<close> and
  \<open>jwt_decode\<close> are the compact serialisation and its parser (\<open>None\<close> for a malformed
  string). \<open>regex_compile p\<close> is the store's matcher for the pattern \<open>p\<close> with the
  option \<^verbatim>\<open>i\<close>, \<open>None\<close> when the pattern does not compile. \<open>sort_path_ok\<close> tells
  whether the store accepts a string as the field path of a sort specification (it rejects
  an empty one, for instance). \<open>find_beyond\<close> is what the store answers to a listing
  whose skip or limit is no safe integer: an error message or documents.
  \<open>is_object_id\<close> tells whether a string casts to an \<^verbatim>\<open>ObjectId\<close>, and \<open>new_id\<close> is the
  identifier given to the next document.
\<close>

record env =
  JWT_SECRET :: string
  now :: int
  new_id :: string
  bcrypt_hash :: "string \<Rightarrow> string"
  bcrypt_compare :: "string \<Rightarrow> string \<Rightarrow> bool"
  jwt_encode :: "token \<Rightarrow> string"
  jwt_decode :: "string \<Rightarrow> token option"
  regex_compile :: "string \<Rightarrow> (string \<Rightarrow> bool) option"
  sort_path_ok :: "string \<Rightarrow> bool"
  find_beyond :: "req_query \<Rightarrow> user list \<Rightarrow> string + user list"
  is_object_id :: "string \<Rightarrow> bool"

datatype err =
  ValidationError "string list"
  | DuplicateKey string
  | CastError string
  | ReferenceError string
  | MongoError string
  | BcryptError string
  | JsonWebTokenError string
  | TokenExpiredError string

fun join :: "string \<Rightarrow> string list \<Rightarrow> string" where
  "join d [] = []"
| "join d [x] = x"
| "join d (x # y # ys) = x @ d @ join d (y # ys)"

fun message :: "err \<Rightarrow> string" where
  "message (ValidationError ms) = ''User validation failed: '' @ join '', '' ms"
| "message (DuplicateKey k) = ''E11000 duplicate key error dup key: '' @ k"
| "message (CastError v) = ''Cast to ObjectId failed for value '' @ v"
| "message (ReferenceError x) = x @ '' is not defined''"
| "message (MongoError m) = m"
| "message (BcryptError m) = m"
| "message (JsonWebTokenError m) = m"
| "message (TokenExpiredError m) = m"

record response =
  status :: nat
  payload :: json

definition msg :: "string \<Rightarrow> json" where
  "msg m = JObj [(''msg'', JStr m)]"

subsection \<open>\<^verbatim>\<open>jsonwebtoken\<close>\<close>

definition jwt_sign :: "env \<Rightarrow> (string \<times> json) list \<Rightarrow> int \<Rightarrow> token" where
  \<comment> \<open>\<^verbatim>\<open>jwt.sign(payload, process.env.JWT_SECRET, { expiresIn })\<close>, \<open>expiresIn\<close> in
      seconds: the payload gets the issue time and the expiry, in seconds.\<close>
  "jwt_sign e pl expiresIn =
     \<lparr> claims = pl @ [(''iat'', JNum (now e div 1000)),
                       (''exp'', JNum (now e div 1000 + expiresIn))],
       signed_with = JWT_SECRET e \<rparr>"

definition jwt_verify :: "env \<Rightarrow> string \<Rightarrow> err + (string \<times> json) list" where
  \<comment> \<open>\<^verbatim>\<open>jwt.verify(token, process.env.JWT_SECRET)\<close>: the decoded payload, or the error
      thrown\<close>
  "jwt_verify e t =
     (case jwt_decode e t of
        None \<Rightarrow> Inl (JsonWebTokenError ''jwt malformed'')
      | Some tk \<Rightarrow>
          if signed_with tk \<noteq> JWT_SECRET e then Inl (JsonWebTokenError ''invalid signature'')
          else (case map_of (claims tk) ''exp'' of
                  None \<Rightarrow> Inr (claims tk)
                | Some (JNum x) \<Rightarrow>
                    if x \<le> now e div 1000 then Inl (TokenExpiredError ''jwt expired'')
                    else Inr (claims tk)
                | Some _ \<Rightarrow> Inl (JsonWebTokenError ''invalid exp value'')))"

subsection \<open>The schema of \<^verbatim>\<open>models/User.js\<close>\<close>

text \<open>
  Each path's setters (\<^verbatim>\<open>trim\<close>, \<^verbatim>\<open>lowercase\<close>) run before its validators; a
  validator gives the message of the first failure on its path.
\<close>

definition set_name :: "string \<Rightarrow> string" where
  "set_name s = trim s"

definition set_email :: "string \<Rightarrow> string" where
  "set_email s = toLowerCase s"

definition check_name :: "string option \<Rightarrow> string option" where
  "check_name v =
     (case v of
        None \<Rightarrow> Some ''name: Name is required''
      | Some s \<Rightarrow>
          if set_name s = [] then Some ''name: Name is required''
          else if js_length (set_name s) < 2
          then Some ''name: Name must be at least 2 characters''
          else None)"

definition check_email :: "string option \<Rightarrow> string option" where
  "check_email v =
     (case v of
        None \<Rightarrow> Some ''email: Email is required''
      | Some s \<Rightarrow>
          if set_email s = [] then Some ''email: Email is required''
          else if \<not> rmatch email_rexp (set_email s) then Some ''email: Please enter a valid email''
          else None)"

definition check_password :: "string option \<Rightarrow> string option" where
  "check_password v =
     (case v of
        None \<Rightarrow> Some ''password: Password is required''
      | Some s \<Rightarrow>
          if s = [] then Some ''password: Password is required''
          else if js_length s < 6 then Some ''password: Password must be at least 6 characters''
          else None)"

definition check_role :: "string \<Rightarrow> string option" where
  "check_role r =
     (if r = ''user'' \<or> r = ''admin'' then None
      else Some (''role: `'' @ r @ ''` is not a valid enum value for path `role`.''))"

definition failures :: "string option list \<Rightarrow> string list" where
  "failures cs = concat (map (\<lambda>c. case c of None \<Rightarrow> [] | Some m \<Rightarrow> [m]) cs)"

subsection \<open>The collection\<close>

definition findById :: "env \<Rightarrow> user list \<Rightarrow> string \<Rightarrow> err + user option" where
  \<comment> \<open>\<^verbatim>\<open>User.findById(id)\<close>: a string that is no \<^verbatim>\<open>ObjectId\<close> is a cast error\<close>
  "findById e db i =
     (if is_object_id e i then Inr (find (\<lambda>u. uid u = i) db) else Inl (CastError i))"

definition findOne_email :: "user list \<Rightarrow> string option \<Rightarrow> user option" where
  \<comment> \<open>\<^verbatim>\<open>User.findOne({ email })\<close>: the filter value goes through the path's setter;
      every document has an email, so an \<^verbatim>\<open>undefined\<close> one finds nothing\<close>
  "findOne_email db v =
     (case v of None \<Rightarrow> None | Some s \<Rightarrow> find (\<lambda>u. email u = set_email s) db)"

definition doc_json :: "string list \<Rightarrow> user \<Rightarrow> json" where
  \<comment> \<open>the document as \<^verbatim>\<open>res.json\<close> sends it, without the excluded paths:
      \<^verbatim>\<open>.select('-password')\<close> is \<open>doc_json [''password'']\<close>\<close>
  "doc_json excluded u =
     JObj (filter (\<lambda>kv. fst kv \<notin> set excluded)
       [(''_id'', JStr (uid u)), (''name'', JStr (name u)), (''email'', JStr (email u)),
        (''password'', JStr (password u)), (''role'', JStr (role u)),
        (''isActive'', JBool (isActive u)), (''createdAt'', JNum (createdAt u)),
        (''updatedAt'', JNum (updatedAt u)), (''__v'', JNum 0)])"

definition query_error :: "env \<Rightarrow> mquery \<Rightarrow> bool" where
  \<comment> \<open>the store rejects a filter whose pattern does not compile\<close>
  "query_error e q =
     (case or_regex q of None \<Rightarrow> False | Some p \<Rightarrow> regex_compile e p = None)"

definition search_clause :: "env \<Rightarrow> mquery \<Rightarrow> user \<Rightarrow> bool" where
  \<comment> \<open>the key \<^verbatim>\<open>$or\<close>: the pattern matches the name or the email\<close>
  "search_clause e q u \<longleftrightarrow>
     (case or_regex q of
        None \<Rightarrow> True
      | Some p \<Rightarrow> (case regex_compile e p of
                     None \<Rightarrow> False
                   | Some m \<Rightarrow> m (name u) \<or> m (email u)))"

definition role_clause :: "mquery \<Rightarrow> user \<Rightarrow> bool" where
  "role_clause q u \<longleftrightarrow> (case role_eq q of None \<Rightarrow> True | Some r \<Rightarrow> role u = r)"

definition active_clause :: "mquery \<Rightarrow> user \<Rightarrow> bool" where
  "active_clause q u \<longleftrightarrow> (case isActive_eq q of None \<Rightarrow> True | Some b \<Rightarrow> isActive u = b)"

definition matches :: "env \<Rightarrow> mquery \<Rightarrow> user \<Rightarrow> bool" where
  \<comment> \<open>the document satisfies every key of the filter\<close>
  "matches e q u \<longleftrightarrow> search_clause e q u \<and> role_clause q u \<and> active_clause q u"

definition order_by :: "int \<Rightarrow> ('a \<Rightarrow> 'k::linorder) \<Rightarrow> 'a list \<Rightarrow> 'a list" where
  \<comment> \<open>ascending for the direction 1, descending for -1; documents with equal keys keep
      their stored order\<close>
  "order_by d k xs = (if d = - 1 then rev (sort_key k (rev xs)) else sort_key k xs)"

definition sort_users :: "string \<times> int \<Rightarrow> user list \<Rightarrow> user list" where
  \<comment> \<open>\<^verbatim>\<open>.sort({ [field]: direction })\<close>; \<^verbatim>\<open>$natural\<close> is the stored order, and a
      field no document has leaves the order\<close>
  "sort_users s us =
     (let f = fst s; d = snd s
      in if f = ''$natural'' then (if d = - 1 then rev us else us)
         else if f = ''_id'' then order_by d uid us
         else if f = ''name'' then order_by d name us
         else if f = ''email'' then order_by d email us
         else if f = ''password'' then order_by d password us
         else if f = ''role'' then order_by d role us
         else if f = ''isActive'' then order_by d isActive us
         else if f = ''createdAt'' then order_by d createdAt us
         else if f = ''updatedAt'' then order_by d updatedAt us
         else us)"

definition limit_docs :: "int \<Rightarrow> 'a list \<Rightarrow> 'a list" where
  \<comment> \<open>\<^verbatim>\<open>.limit(n)\<close>: 0 is no limit, a negative \<open>n\<close> limits to \<open>- n\<close>\<close>
  "limit_docs n xs = (if n = 0 then xs else take (nat \<bar>n\<bar>) xs)"

definition matching :: "env \<Rightarrow> user list \<Rightarrow> mquery \<Rightarrow> user list" where
  \<comment> \<open>the documents the filter selects, in stored order\<close>
  "matching e db q = filter (matches e q) db"

definition find_page ::
  "env \<Rightarrow> user list \<Rightarrow> mquery \<Rightarrow> pagination_sort \<Rightarrow> req_query \<Rightarrow> err + user list" where
  \<comment> \<open>\<^verbatim>\<open>User.find(query).sort(sort).skip(skip).limit(limit)\<close>; the store rejects a
      sort path it does not accept and a negative skip. The last argument is the query
      string that \<open>skip\<close> and \<open>limit\<close> were read from, for \<open>find_beyond\<close>.\<close>
  "find_page e db q ps rq =
     (if query_error e q then Inl (MongoError ''Regular expression is invalid'')
      else if \<not> sort_path_ok e (fst (sortBy ps)) then Inl (MongoError ''Bad sort specification'')
      else (case (skip ps, limit ps) of
              (Num s, Num l) \<Rightarrow>
                if s < 0 then Inl (MongoError ''Skip value must be non-negative'')
                else Inr (limit_docs l (drop (nat s) (sort_users (sortBy ps) (matching e db q))))
            | _ \<Rightarrow>
                (case find_beyond e rq db of
                   Inl m \<Rightarrow> Inl (MongoError m)
                 | Inr users \<Rightarrow> Inr users)))"

definition countDocuments :: "env \<Rightarrow> user list \<Rightarrow> mquery \<Rightarrow> err + int" where
  "countDocuments e db q =
     (if query_error e q then Inl (MongoError ''Regular expression is invalid'')
      else Inr (int (length (matching e db q))))"

fun replace_doc :: "string \<Rightarrow> user \<Rightarrow> user list \<Rightarrow> user list" where
  "replace_doc i u' [] = []"
| "replace_doc i u' (u # us) = (if uid u = i then u' # us else u # replace_doc i u' us)"

fun remove_doc :: "string \<Rightarrow> user list \<Rightarrow> user list" where
  "remove_doc i [] = []"
| "remove_doc i (u # us) = (if uid u = i then us else u # remove_doc i us)"

section \<open>Requests and the middleware of \<^verbatim>\<open>middleware/auth.js\<close>\<close>

text \<open>
  The fields of the JSON body that the routes and the schema read. A field is absent or
  holds a string (\<^verbatim>\<open>isActive\<close>: a boolean); bodies with values of other types, or with
  other keys, are outside the model.
\<close>

record req_body =
  b_name :: "string option"
  b_email :: "string option"
  b_password :: "string option"
  b_role :: "string option"
  b_isActive :: "bool option"

record request =
  header_Authorization :: "string option"
  params_id :: string
  query :: req_query
  body :: req_body

fun replace_first :: "string \<Rightarrow> string \<Rightarrow> string \<Rightarrow> string" where
  \<comment> \<open>\<^verbatim>\<open>s.replace(pat, rep)\<close> for a string pattern: the first occurrence only\<close>
  "replace_first pat rep [] = (if pat = [] then rep else [])"
| "replace_first pat rep (c # cs) =
     (if take (length pat) (c # cs) = pat then rep @ drop (length pat) (c # cs)
      else c # replace_first pat rep cs)"

definition bearer_token :: "request \<Rightarrow> string option" where
  \<comment> \<open>\<^verbatim>\<open>req.header('Authorization')?.replace('Bearer ', '')\<close>\<close>
  "bearer_token req = map_option (replace_first ''Bearer '' []) (header_Authorization req)"

definition auth :: "env \<Rightarrow> user list \<Rightarrow> request \<Rightarrow> response + user" where
  \<comment> \<open>\<open>Inl\<close> is the response sent; \<open>Inr u\<close> is \<^verbatim>\<open>req.user = u; next()\<close>. Every
      exception of the body is caught and answered with 401.\<close>
  "auth e db req =
     (let token = bearer_token req
      in if \<not> truthy token
         then Inl \<lparr> status = 401, payload = msg ''No token, authorization denied'' \<rparr>
         else (case jwt_verify e (js_string token) of
                 Inl er \<Rightarrow> Inl \<lparr> status = 401, payload = msg ''Token is not valid'' \<rparr>
               | Inr decoded \<Rightarrow>
                   (case map_of decoded ''id'' of
                      Some (JStr i) \<Rightarrow>
                        (case findById e db i of
                           Inl er \<Rightarrow> Inl \<lparr> status = 401, payload = msg ''Token is not valid'' \<rparr>
                         | Inr None \<Rightarrow> Inl \<lparr> status = 401, payload = msg ''Token is not valid'' \<rparr>
                         | Inr (Some u) \<Rightarrow> Inr u)
                    | _ \<Rightarrow> Inl \<lparr> status = 401, payload = msg ''Token is not valid'' \<rparr>)))"

definition adminAuth :: "user \<Rightarrow> response + unit" where
  "adminAuth u =
     (if role u \<noteq> ''admin'' then Inl \<lparr> status = 403, payload = msg ''Admin access required'' \<rparr>
      else Inr ())"

definition protected ::
  "(env \<Rightarrow> user list \<Rightarrow> request \<Rightarrow> response \<times> user list)
     \<Rightarrow> env \<Rightarrow> user list \<Rightarrow> request \<Rightarrow> response \<times> user list" where
  \<comment> \<open>\<^verbatim>\<open>router.METHOD(path, auth, adminAuth, handler)\<close>\<close>
  "protected handler e db req =
     (case auth e db req of
        Inl r \<Rightarrow> (r, db)
      | Inr u \<Rightarrow> (case adminAuth u of Inl r \<Rightarrow> (r, db) | Inr _ \<Rightarrow> handler e db req))"

section \<open>The routes of \<^verbatim>\<open>routes/user.js\<close>\<close>

text \<open>
  A handler takes the environment, the collection and the request, and gives the response
  it sends and the collection it leaves. An exception thrown in a handler's body is caught
  by its \<^verbatim>\<open>try\<close> and answered with 500.
\<close>

definition server_error :: json where
  "server_error = msg ''Server error''"

definition public_user :: "user \<Rightarrow> json" where
  \<comment> \<open>\<^verbatim>\<open>{ id: user.id, name: user.name, email: user.email, role: user.role }\<close>\<close>
  "public_user u =
     JObj [(''id'', JStr (uid u)), (''name'', JStr (name u)), (''email'', JStr (email u)),
           (''role'', JStr (role u))]"

definition issue_token :: "env \<Rightarrow> user \<Rightarrow> token" where
  \<comment> \<open>\<^verbatim>\<open>jwt.sign({ id: user.id }, process.env.JWT_SECRET, { expiresIn: '1h' })\<close>\<close>
  "issue_token e u = jwt_sign e [(''id'', JStr (uid u))] 3600"

definition save_new ::
  "env \<Rightarrow> user list \<Rightarrow> string option \<Rightarrow> string option \<Rightarrow> string option \<Rightarrow> string
     \<Rightarrow> err + user" where
  \<comment> \<open>\<^verbatim>\<open>new User({ name, email, password, role }).save()\<close>: validation, then the
      \<^verbatim>\<open>pre('save')\<close> hook that hashes the password, then the insertion, which the
      unique indexes on \<^verbatim>\<open>email\<close> and \<^verbatim>\<open>_id\<close> can reject\<close>
  "save_new e db nm em pw rl =
     (case failures [check_name nm, check_email em, check_password pw, check_role rl] of
        f # fs \<Rightarrow> Inl (ValidationError (f # fs))
      | [] \<Rightarrow>
          (case (nm, em, pw) of
             (Some n, Some m, Some p) \<Rightarrow>
               if list_ex (\<lambda>u. email u = set_email m) db then Inl (DuplicateKey (set_email m))
               else if list_ex (\<lambda>u. uid u = new_id e) db then Inl (DuplicateKey (new_id e))
               else Inr \<lparr> uid = new_id e, name = set_name n, email = set_email m,
                          password = bcrypt_hash e p, role = rl, isActive = True,
                          createdAt = now e, updatedAt = now e \<rparr>
           | _ \<Rightarrow> Inl (ValidationError [])))"

definition post_users :: "env \<Rightarrow> user list \<Rightarrow> request \<Rightarrow> response \<times> user list" where
  \<comment> \<open>\<^verbatim>\<open>router.post('/')\<close>, public\<close>
  "post_users e db req =
     (let b = body req
      in case findOne_email db (b_email b) of
           Some _ \<Rightarrow> (\<lparr> status = 400, payload = msg ''User already exists'' \<rparr>, db)
         | None \<Rightarrow>
             (case save_new e db (b_name b) (b_email b) (b_password b)
                     (if truthy (b_role b) then js_string (b_role b) else ''user'') of
                Inl er \<Rightarrow>
                  (\<lparr> status = 500,
                     payload = JObj [(''msg'', JStr ''Server error''),
                                     (''error'', JStr (message er))] \<rparr>, db)
              | Inr u \<Rightarrow>
                  (\<lparr> status = 201,
                     payload = JObj [(''token'', JStr (jwt_encode e (issue_token e u))),
                                     (''user'', public_user u)] \<rparr>, db @ [u])))"

definition comparePassword :: "env \<Rightarrow> user \<Rightarrow> string option \<Rightarrow> err + bool" where
  \<comment> \<open>\<^verbatim>\<open>userSchema.methods.comparePassword\<close>: \<^verbatim>\<open>bcrypt.compare\<close> throws on a
      candidate that is no string\<close>
  "comparePassword e u candidatePassword =
     (case candidatePassword of
        None \<Rightarrow> Inl (BcryptError ''Illegal arguments: undefined, string'')
      | Some c \<Rightarrow> Inr (bcrypt_compare e c (password u)))"

definition post_login :: "env \<Rightarrow> user list \<Rightarrow> request \<Rightarrow> response \<times> user list" where
  \<comment> \<open>\<^verbatim>\<open>router.post('/login')\<close>, public\<close>
  "post_login e db req =
     (let b = body req
      in case findOne_email db (b_email b) of
           None \<Rightarrow> (\<lparr> status = 400, payload = msg ''Invalid credentials'' \<rparr>, db)
         | Some u \<Rightarrow>
             (case comparePassword e u (b_password b) of
                Inl er \<Rightarrow> (\<lparr> status = 500, payload = server_error \<rparr>, db)
              | Inr same \<Rightarrow>
                  if \<not> same
                  then (\<lparr> status = 400, payload = msg ''Invalid credentials'' \<rparr>, db)
                  else (\<lparr> status = 200,
                          payload = JObj [(''token'', JStr (jwt_encode e (issue_token e u))),
                                          (''user'', public_user u)] \<rparr>, db)))"

definition get_users :: "env \<Rightarrow> user list \<Rightarrow> request \<Rightarrow> response \<times> user list" where
  \<comment> \<open>the handler of \<^verbatim>\<open>router.get('/')\<close>\<close>
  "get_users e db req =
     (let qry = buildQuery (query req);
          ps = getPaginationSort (query req)
      in case find_page e db qry ps (query req) of
           Inl er \<Rightarrow> (\<lparr> status = 500, payload = server_error \<rparr>, db)
         | Inr users \<Rightarrow>
             (case countDocuments e db qry of
                Inl er \<Rightarrow> (\<lparr> status = 500, payload = server_error \<rparr>, db)
              | Inr total_n \<Rightarrow>
                  (\<lparr> status = 200,
                     payload =
                       JObj [(''users'', JArr (map (doc_json [''password'']) users)),
                             (''pagination'',
                              JObj [(''current'', num_json (page_param (query req))),
                                    (''pages'',
                                     num_json (num_ceil_div (to_number total_n) (limit ps))),
                                    (''total'', num_json (to_number total_n))])] \<rparr>, db)))"

definition get_user :: "env \<Rightarrow> user list \<Rightarrow> request \<Rightarrow> response \<times> user list" where
  \<comment> \<open>the handler of \<^verbatim>\<open>router.get('/:id')\<close>\<close>
  "get_user e db req =
     (case findById e db (params_id req) of
        Inl er \<Rightarrow> (\<lparr> status = 500, payload = server_error \<rparr>, db)
      | Inr None \<Rightarrow> (\<lparr> status = 404, payload = msg ''User not found'' \<rparr>, db)
      | Inr (Some u) \<Rightarrow> (\<lparr> status = 200, payload = doc_json [''password''] u \<rparr>, db))"

text \<open>
  \<^verbatim>\<open>routes/user.js\<close> requires \<^verbatim>\<open>express\<close>, the middleware, the model and
  \<^verbatim>\<open>jsonwebtoken\<close>. It has no binding for the name \<^verbatim>\<open>bcrypt\<close>, which the handler
  of \<^verbatim>\<open>router.put('/:id')\<close> reads: evaluating the name throws a reference error.
\<close>

definition routes_bcrypt :: "err + (string \<Rightarrow> string)" where
  "routes_bcrypt = Inl (ReferenceError ''bcrypt'')"

definition apply_updates :: "req_body \<Rightarrow> int \<Rightarrow> user \<Rightarrow> user" where
  \<comment> \<open>\<^verbatim>\<open>$set\<close> of the supplied paths, after their setters, and of \<^verbatim>\<open>updatedAt\<close>\<close>
  "apply_updates b t u =
     u \<lparr> name := (case b_name b of None \<Rightarrow> name u | Some s \<Rightarrow> set_name s),
         email := (case b_email b of None \<Rightarrow> email u | Some s \<Rightarrow> set_email s),
         password := (case b_password b of None \<Rightarrow> password u | Some s \<Rightarrow> s),
         role := (case b_role b of None \<Rightarrow> role u | Some s \<Rightarrow> s),
         isActive := (case b_isActive b of None \<Rightarrow> isActive u | Some a \<Rightarrow> a),
         updatedAt := t \<rparr>"

definition update_failures :: "req_body \<Rightarrow> string list" where
  \<comment> \<open>\<^verbatim>\<open>runValidators: true\<close>: the validators of the supplied paths\<close>
  "update_failures b =
     failures [case b_name b of None \<Rightarrow> None | Some s \<Rightarrow> check_name (Some s),
               case b_email b of None \<Rightarrow> None | Some s \<Rightarrow> check_email (Some s),
               case b_password b of None \<Rightarrow> None | Some s \<Rightarrow> check_password (Some s),
               case b_role b of None \<Rightarrow> None | Some s \<Rightarrow> check_role s]"

definition findByIdAndUpdate ::
  "env \<Rightarrow> user list \<Rightarrow> string \<Rightarrow> req_body \<Rightarrow> int \<Rightarrow> err + (user option \<times> user list)" where
  \<comment> \<open>\<^verbatim>\<open>User.findByIdAndUpdate(id, { ...updates, updatedAt }, { new: true,
      runValidators: true })\<close>: the updated document, \<^verbatim>\<open>null\<close> when no document has
      the id, and the collection afterwards\<close>
  "findByIdAndUpdate e db i b t =
     (if \<not> is_object_id e i then Inl (CastError i)
      else (case update_failures b of
              f # fs \<Rightarrow> Inl (ValidationError (f # fs))
            | [] \<Rightarrow>
                (case find (\<lambda>u. uid u = i) db of
                   None \<Rightarrow> Inr (None, db)
                 | Some u \<Rightarrow>
                     if b_email b \<noteq> None
                        \<and> list_ex (\<lambda>v. uid v \<noteq> i \<and> email v = email (apply_updates b t u)) db
                     then Inl (DuplicateKey (email (apply_updates b t u)))
                     else Inr (Some (apply_updates b t u),
                               replace_doc i (apply_updates b t u) db))))"

definition put_user :: "env \<Rightarrow> user list \<Rightarrow> request \<Rightarrow> response \<times> user list" where
  \<comment> \<open>the handler of \<^verbatim>\<open>router.put('/:id')\<close>\<close>
  "put_user e db req =
     (let updates = body req
      in case (if truthy (b_password updates)
               then (case routes_bcrypt of
                       Inl er \<Rightarrow> Inl er
                     | Inr hash \<Rightarrow>
                         Inr (updates \<lparr> b_password := Some (hash (js_string (b_password updates))) \<rparr>))
               else Inr updates) of
           Inl er \<Rightarrow> (\<lparr> status = 500, payload = server_error \<rparr>, db)
         | Inr updates \<Rightarrow>
             (case findByIdAndUpdate e db (params_id req) updates (now e) of
                Inl er \<Rightarrow> (\<lparr> status = 500, payload = server_error \<rparr>, db)
              | Inr (None, db') \<Rightarrow> (\<lparr> status = 404, payload = msg ''User not found'' \<rparr>, db')
              | Inr (Some u, db') \<Rightarrow>
                  (\<lparr> status = 200, payload = doc_json [''password''] u \<rparr>, db')))"

definition findByIdAndDelete ::
  "env \<Rightarrow> user list \<Rightarrow> string \<Rightarrow> err + (user option \<times> user list)" where
  \<comment> \<open>the deleted document, \<^verbatim>\<open>null\<close> when no document has the id, and the collection
      afterwards\<close>
  "findByIdAndDelete e db i =
     (if \<not> is_object_id e i then Inl (CastError i)
      else (case find (\<lambda>u. uid u = i) db of
              None \<Rightarrow> Inr (None, db)
            | Some u \<Rightarrow> Inr (Some u, remove_doc i db)))"

definition delete_user :: "env \<Rightarrow> user list \<Rightarrow> request \<Rightarrow> response \<times> user list" where
  \<comment> \<open>the handler of \<^verbatim>\<open>router.delete('/:id')\<close>\<close>
  "delete_user e db req =
     (case findByIdAndDelete e db (params_id req) of
        Inl er \<Rightarrow> (\<lparr> status = 500, payload = server_error \<rparr>, db)
      | Inr (None, db') \<Rightarrow> (\<lparr> status = 404, payload = msg ''User not found'' \<rparr>, db')
      | Inr (Some u, db') \<Rightarrow> (\<lparr> status = 200, payload = msg ''User deleted'' \<rparr>, db'))"

datatype route = PostUsers | PostLogin | GetUsers | GetUser | PutUser | DeleteUser

fun handle :: "route \<Rightarrow> env \<Rightarrow> user list \<Rightarrow> request \<Rightarrow> response \<times> user list" where
  \<comment> \<open>the router: the two public routes, and the four behind \<^verbatim>\<open>auth, adminAuth\<close>\<close>
  "handle PostUsers = post_users"
| "handle PostLogin = post_login"
| "handle GetUsers = protected get_users"
| "handle GetUser = protected get_user"
| "handle PutUser = protected put_user"
| "handle DeleteUser = protected delete_user"

section \<open>A seeded collection and a sample environment\<close>

text \<open>
  The four users \<^verbatim>\<open>seedUsers\<close> of \<^verbatim>\<open>server.js\<close> creates, and an environment whose
  library functions are small stand-ins, for running the routes on concrete requests.
\<close>

definition sample_hash :: "string \<Rightarrow> string" where
  "sample_hash p = ''$2a$12$'' @ rev p"

definition seeded :: "user list" where
  "seeded =
     [\<lparr> uid = ''u1'', name = ''Admin User'', email = ''admin@example.com'',
         password = sample_hash ''admin123'', role = ''admin'', isActive = True,
         createdAt = 1000, updatedAt = 1000 \<rparr>,
      \<lparr> uid = ''u2'', name = ''John Doe'', email = ''john@example.com'',
         password = sample_hash ''user123'', role = ''user'', isActive = True,
         createdAt = 2000, updatedAt = 2000 \<rparr>,
      \<lparr> uid = ''u3'', name = ''Jane Smith'', email = ''jane@example.com'',
         password = sample_hash ''user123'', role = ''user'', isActive = True,
         createdAt = 3000, updatedAt = 3000 \<rparr>,
      \<lparr> uid = ''u4'', name = ''Bob Wilson'', email = ''bob@example.com'',
         password = sample_hash ''user123'', role = ''user'', isActive = False,
         createdAt = 4000, updatedAt = 4000 \<rparr>]"

definition sample_token :: "string \<Rightarrow> string \<Rightarrow> int \<Rightarrow> token" where
  "sample_token i k x =
     \<lparr> claims = [(''id'', JStr i), (''iat'', JNum (x - 3600)), (''exp'', JNum x)],
       signed_with = k \<rparr>"

definition sample_decode :: "string \<Rightarrow> token option" where
  "sample_decode s =
     (if s = ''admin-token'' then Some (sample_token ''u1'' ''k'' 3609)
      else if s = ''john-token'' then Some (sample_token ''u2'' ''k'' 3609)
      else if s = ''gone-token'' then Some (sample_token ''u9'' ''k'' 3609)
      else if s = ''old-token'' then Some (sample_token ''u1'' ''k'' 9)
      else if s = ''forged-token'' then Some (sample_token ''u1'' ''other'' 3609)
      else None)"

definition sample_regex :: "string \<Rightarrow> (string \<Rightarrow> bool) option" where
  \<comment> \<open>a stand-in for the store's engine, for the sample environment only: it does what
      the store does on the fragment and refuses every other pattern; the store refuses
      some of these (an unbalanced parenthesis, for instance) and compiles the others\<close>
  "sample_regex p = (if in_fragment p then Some (fragment_match p) else None)"

definition sample_env :: env where
  "sample_env =
     \<lparr> JWT_SECRET = ''k'', now = 9000, new_id = ''u5'', bcrypt_hash = sample_hash,
       bcrypt_compare = (\<lambda>c h. h = sample_hash c), jwt_encode = (\<lambda>t. ''jwt''),
       jwt_decode = sample_decode, regex_compile = sample_regex,
       sort_path_ok = (\<lambda>s. s \<noteq> []),
       find_beyond = (\<lambda>rq db. Inl ''Failed to parse the query''),
       is_object_id = (\<lambda>s. s \<noteq> []) \<rparr>"

definition no_query :: req_query where
  "no_query =
     \<lparr> q_page = None, q_limit = None, q_search = None, q_role = None, q_active = None,
       q_sort = None \<rparr>"

definition no_fields :: req_body where
  "no_fields =
     \<lparr> b_name = None, b_email = None, b_password = None, b_role = None, b_isActive = None \<rparr>"

definition admin_request :: request where
  \<comment> \<open>a request by the seeded administrator, about the user \<^verbatim>\<open>u2\<close>\<close>
  "admin_request =
     \<lparr> header_Authorization = Some ''Bearer admin-token'', params_id = ''u2'',
       query = no_query, body = no_fields \<rparr>"

definition login_request :: request where
  \<comment> \<open>the seeded administrator logs in\<close>
  "login_request =
     \<lparr> header_Authorization = None, params_id = [], query = no_query,
       body = no_fields \<lparr> b_email := Some ''admin@example.com'',
                            b_password := Some ''admin123'' \<rparr> \<rparr>"

definition signup_request :: request where
  \<comment> \<open>a visitor registers and asks for the role \<^verbatim>\<open>admin\<close>\<close>
  "signup_request =
     \<lparr> header_Authorization = None, params_id = [], query = no_query,
       body = \<lparr> b_name = Some ''Eve'', b_email = Some ''Eve@Example.com'',
                b_password = Some ''hunter22'', b_role = Some ''admin'',
                b_isActive = None \<rparr> \<rparr>"

definition password_request :: request where
  \<comment> \<open>the administrator sets a new password for the user \<^verbatim>\<open>u2\<close>\<close>
  "password_request = admin_request \<lparr> body := no_fields \<lparr> b_password := Some ''newsecret'' \<rparr> \<rparr>"

definition page_request :: request where
  \<comment> \<open>the administrator asks for the second page of three users\<close>
  "page_request =
     admin_request \<lparr> query := no_query \<lparr> q_page := Some ''2'', q_limit := Some ''3'' \<rparr> \<rparr>"

definition eve :: user where
  \<comment> \<open>the document \<open>signup_request\<close> creates in the sample environment\<close>
  "eve =
     \<lparr> uid = ''u5'', name = ''Eve'', email = ''eve@example.com'',
       password = sample_hash ''hunter22'', role = ''admin'', isActive = True,
       createdAt = 9000, updatedAt = 9000 \<rparr>"

definition john :: user where
  "john =
     \<lparr> uid = ''u2'', name = ''John Doe'', email = ''john@example.com'',
       password = sample_hash ''user123'', role = ''user'', isActive = True,
       createdAt = 2000, updatedAt = 2000 \<rparr>"

definition jane :: user where
  "jane =
     \<lparr> uid = ''u3'', name = ''Jane Smith'', email = ''jane@example.com'',
       password = sample_hash ''user123'', role = ''user'', isActive = True,
       createdAt = 3000, updatedAt = 3000 \<rparr>"

section \<open>Evaluation rules\<close>

lemmas sample_defs =
  sample_env_def seeded_def admin_request_def no_query_def no_fields_def sample_decode_def
  sample_token_def sample_hash_def

lemmas parse_defs =
  parseInt_def is_ws_def is_ws2_def is_ws3_def radix_digit_def digit_val_def digits_value_def
  to_number_def num_sub_def num_mul_def js_or_def js_string_def truthy_def page_param_def
  limit_param_def sort_param_def

lemmas store_defs =
  findById_def findOne_email_def query_error_def matching_def matches_def search_clause_def
  role_clause_def active_clause_def sort_users_def order_by_def limit_docs_def find_page_def
  countDocuments_def doc_json_def msg_def server_error_def num_json_def num_ceil_div_def

lemmas guard_defs =
  protected_def auth_def adminAuth_def bearer_token_def jwt_verify_def

section \<open>The helpers\<close>

lemma parseInt_undefined: "parseInt ''undefined'' = NaN"
  by (simp add: parseInt_def is_ws_def is_ws2_def is_ws3_def radix_digit_def digit_val_def)

lemma page_param_cases:
  "page_param q =
     (case q_page q of
        None \<Rightarrow> Num 1
      | Some s \<Rightarrow> (case parseInt s of
                     NaN \<Rightarrow> Num 1
                   | Num n \<Rightarrow> if n = 0 then Num 1 else Num n
                   | Beyond \<Rightarrow> Beyond))"
  by (simp add: page_param_def js_or_def js_string_def parseInt_undefined
           split: option.splits number.splits)

lemma skip_exact:
  assumes "page_param q = Num p" and "limit_param q = Num l"
    and "\<bar>p - 1\<bar> \<le> 9007199254740991" and "\<bar>(p - 1) * l\<bar> \<le> 9007199254740991"
  shows "skip (getPaginationSort q) = Num ((p - 1) * l)"
  using assms by (simp add: getPaginationSort_def Let_def num_sub_def num_mul_def to_number_def)

lemma page_before_bound:
  fixes p l :: int
  assumes "1 \<le> p" and "1 \<le> l" and "(p - 1) * l \<le> b"
  shows "\<bar>p - 1\<bar> \<le> b" and "\<bar>(p - 1) * l\<bar> \<le> b" and "0 \<le> (p - 1) * l"
proof -
  have nonneg: "0 \<le> p - 1"
    using assms(1) by simp
  have "(p - 1) * 1 \<le> (p - 1) * l"
    using assms(2) nonneg by (rule mult_left_mono)
  with assms(3) nonneg show "\<bar>p - 1\<bar> \<le> b"
    by simp
  show "0 \<le> (p - 1) * l"
    using nonneg assms(2) by simp
  with assms(3) show "\<bar>(p - 1) * l\<bar> \<le> b"
    by simp
qed

text \<open>
  C6, as stated: every raw page parameter gives an effective page of at least 1 and a
  non-negative skip. The page \<^verbatim>\<open>-5\<close> is parsed to \<open>-5\<close>, which is truthy and is kept:
  the skip is \<open>(-5 - 1) * 10 = -60\<close>.
\<close>

theorem page_not_clamped_counterexample:
  "page_param (no_query \<lparr> q_page := Some ''-5'' \<rparr>) = Num (- 5)
   \<and> skip (getPaginationSort (no_query \<lparr> q_page := Some ''-5'' \<rparr>)) = Num (- 60)"
  by (simp add: getPaginationSort_def Let_def no_query_def parse_defs)

text \<open>
  C6, amended: when the raw page parameter, after its leading white space, reads as an
  integer of magnitude below \<open>2 ^ 53\<close>, the effective page is that integer if it is not
  zero (a negative one is kept), and 1 if it is zero; it is 1 when the parameter is absent
  or not numeric. When the effective page \<open>p\<close> and the effective limit \<open>l\<close> are such
  integers, both at least 1, and \<open>(p - 1) * l\<close> is below \<open>2 ^ 53\<close>, the skip is exactly
  \<open>(p - 1) * l\<close>, which is not negative. (A longer integer is held rounded, or as an
  infinity, and is not clamped either.)
\<close>

theorem getPaginationSort_page_skip:
  "(q_page q = None \<longrightarrow> page_param q = Num 1)
   \<and> (\<forall>s. q_page q = Some s \<and> parseInt s = NaN \<longrightarrow> page_param q = Num 1)
   \<and> (\<forall>s n. q_page q = Some s \<and> parseInt s = Num n \<longrightarrow>
          page_param q = Num (if n = 0 then 1 else n))
   \<and> (\<forall>p l. page_param q = Num p \<and> limit_param q = Num l \<and> 1 \<le> p \<and> 1 \<le> l
            \<and> (p - 1) * l \<le> 9007199254740991 \<longrightarrow>
          skip (getPaginationSort q) = Num ((p - 1) * l) \<and> 0 \<le> (p - 1) * l)"
proof -
  have "skip (getPaginationSort q) = Num ((p - 1) * l) \<and> 0 \<le> (p - 1) * l"
    if "page_param q = Num p" "limit_param q = Num l" "1 \<le> p" "1 \<le> l"
      "(p - 1) * l \<le> 9007199254740991" for p l
    using skip_exact [OF that(1,2)] page_before_bound [OF that(3,4,5)] by simp
  then show ?thesis
    using page_param_cases [of q] by auto
qed

theorem getPaginationSort_page_skip_witness:
  "page_param (query page_request) = Num 2
   \<and> limit_param (query page_request) = Num 3
   \<and> skip (getPaginationSort (query page_request)) = Num 3
   \<and> page_param (no_query \<lparr> q_page := Some ''0'' \<rparr>) = Num 1
   \<and> page_param (no_query \<lparr> q_page := Some ''abc'' \<rparr>) = Num 1
   \<and> page_param no_query = Num 1"
proof -
  have page: "page_param (query page_request) = Num 2"
    and lim: "limit_param (query page_request) = Num 3"
    by (simp_all add: page_request_def sample_defs parse_defs)
  have zero: "parseInt ''0'' = Num 0" and nan: "parseInt ''abc'' = NaN"
    by (simp_all add: parse_defs)
  from getPaginationSort_page_skip [of "query page_request"] page lim
  have "skip (getPaginationSort (query page_request)) = Num 3"
    by simp
  moreover from getPaginationSort_page_skip [of "no_query \<lparr> q_page := Some ''0'' \<rparr>"] zero
  have "page_param (no_query \<lparr> q_page := Some ''0'' \<rparr>) = Num 1"
    by simp
  moreover from getPaginationSort_page_skip [of "no_query \<lparr> q_page := Some ''abc'' \<rparr>"] nan
  have "page_param (no_query \<lparr> q_page := Some ''abc'' \<rparr>) = Num 1"
    by simp
  moreover from getPaginationSort_page_skip [of no_query]
  have "page_param no_query = Num 1"
    by (simp add: no_query_def)
  ultimately show ?thesis
    using page lim by simp
qed

text \<open>
  C7, as stated: a value of the active parameter other than \<^verbatim>\<open>"true"\<close> and
  \<^verbatim>\<open>"false"\<close> contributes no clause. The value \<^verbatim>\<open>"yes"\<close> is present, so the key
  \<^verbatim>\<open>isActive\<close> is set, to \<^verbatim>\<open>"yes" === 'true'\<close>, which is \<open>False\<close>: the clause
  rejects the active user John.
\<close>

theorem active_other_value_counterexample:
  "isActive_eq (buildQuery (no_query \<lparr> q_active := Some ''yes'' \<rparr>)) = Some False
   \<and> \<not> active_clause (buildQuery (no_query \<lparr> q_active := Some ''yes'' \<rparr>)) john"
  by (simp add: buildQuery_def active_clause_def no_query_def john_def)

text \<open>
  C7, amended: an absent active parameter contributes no clause; a present one, whatever
  its value, contributes an exact-equality clause on the active flag, with the value true
  when the parameter is exactly \<^verbatim>\<open>"true"\<close> and false for every other string.
\<close>

theorem buildQuery_active:
  "isActive_eq (buildQuery q) =
     (case q_active q of None \<Rightarrow> None | Some a \<Rightarrow> Some (a = ''true''))
   \<and> active_clause (buildQuery q) u =
       (case q_active q of None \<Rightarrow> True | Some a \<Rightarrow> isActive u = (a = ''true''))"
  by (simp add: buildQuery_def active_clause_def split: option.splits)

theorem buildQuery_active_witness:
  "isActive_eq (buildQuery (no_query \<lparr> q_active := Some ''true'' \<rparr>)) = Some True
   \<and> active_clause (buildQuery (no_query \<lparr> q_active := Some ''true'' \<rparr>)) john"
  using buildQuery_active [of "no_query \<lparr> q_active := Some ''true'' \<rparr>" john]
  by (simp add: no_query_def john_def)

section \<open>No payload carries the password\<close>

lemma doc_json_no_password: "\<not> has_key ''password'' (doc_json [''password''] u)"
  by (simp add: doc_json_def)

lemma docs_no_password:
  "\<not> list_ex (has_key ''password'') (map (doc_json [''password'']) us)"
  by (simp add: list_ex_iff doc_json_no_password)

lemma public_user_no_password: "\<not> has_key ''password'' (public_user u)"
  by (simp add: public_user_def)

lemma post_users_no_password:
  "\<not> has_key ''password'' (payload (fst (post_users e db req)))"
  by (simp add: post_users_def Let_def msg_def public_user_no_password
           split: option.splits sum.splits)

lemma post_login_no_password:
  "\<not> has_key ''password'' (payload (fst (post_login e db req)))"
  by (simp add: post_login_def Let_def msg_def server_error_def public_user_no_password
           split: option.splits sum.splits)

lemma get_users_no_password:
  "\<not> has_key ''password'' (payload (fst (get_users e db req)))"
  by (simp add: get_users_def Let_def msg_def server_error_def docs_no_password num_json_def
           split: option.splits sum.splits number.splits)

lemma get_user_no_password:
  "\<not> has_key ''password'' (payload (fst (get_user e db req)))"
  by (simp add: get_user_def msg_def server_error_def doc_json_no_password
           split: option.splits sum.splits)

lemma put_user_no_password:
  "\<not> has_key ''password'' (payload (fst (put_user e db req)))"
  by (simp add: put_user_def Let_def msg_def server_error_def doc_json_no_password
           split: option.splits sum.splits prod.splits)

lemma delete_user_no_password:
  "\<not> has_key ''password'' (payload (fst (delete_user e db req)))"
  by (simp add: delete_user_def msg_def server_error_def
           split: option.splits sum.splits prod.splits)

lemma auth_no_password: "auth e db req = Inl r \<Longrightarrow> \<not> has_key ''password'' (payload r)"
  by (auto simp: auth_def Let_def msg_def
           split: if_splits sum.splits option.splits json.splits)

lemma adminAuth_no_password: "adminAuth u = Inl r \<Longrightarrow> \<not> has_key ''password'' (payload r)"
  by (auto simp: adminAuth_def msg_def split: if_splits)

lemma protected_no_password:
  assumes "\<And>e db req. \<not> has_key ''password'' (payload (fst (h e db req)))"
  shows "\<not> has_key ''password'' (payload (fst (protected h e db req)))"
  using assms auth_no_password adminAuth_no_password
  by (auto simp: protected_def split: sum.splits)

text \<open>
  C1: whatever the route, the environment, the collection and the request, no object of
  the payload sent back, at any depth, has the key \<^verbatim>\<open>password\<close>: not a user record, not
  the pagination data, not an error payload.
\<close>

theorem no_password_in_any_payload:
  "\<not> has_key ''password'' (payload (fst (handle r e db req)))"
  by (cases r)
     (simp_all add: post_users_no_password post_login_no_password protected_no_password
        get_users_no_password get_user_no_password put_user_no_password
        delete_user_no_password)

theorem no_password_in_any_payload_witness:
  "status (fst (handle GetUsers sample_env seeded admin_request)) = 200
   \<and> \<not> has_key ''password'' (payload (fst (handle GetUsers sample_env seeded admin_request)))
   \<and> has_key ''password'' (doc_json [] john)"
proof -
  have "status (fst (handle GetUsers sample_env seeded admin_request)) = 200"
    by (simp add: sample_defs parse_defs store_defs guard_defs get_users_def Let_def
          buildQuery_def getPaginationSort_def)
  moreover have "has_key ''password'' (doc_json [] john)"
    by (simp add: doc_json_def)
  ultimately show ?thesis
    using no_password_in_any_payload [of GetUsers sample_env seeded admin_request]
    by simp
qed

section \<open>The access guard\<close>

lemma handle_protected:
  "r \<in> set [GetUsers, GetUser, PutUser, DeleteUser] \<Longrightarrow> \<exists>h. handle r = protected h"
  by auto

lemma jwt_verify_malformed: "jwt_decode e t = None \<Longrightarrow> \<exists>er. jwt_verify e t = Inl er"
  by (simp add: jwt_verify_def)

lemma jwt_verify_tampered:
  "jwt_decode e t = Some tk \<Longrightarrow> signed_with tk \<noteq> JWT_SECRET e
     \<Longrightarrow> \<exists>er. jwt_verify e t = Inl er"
  by (simp add: jwt_verify_def)

lemma jwt_verify_expired:
  "jwt_decode e t = Some tk \<Longrightarrow> map_of (claims tk) ''exp'' = Some (JNum x)
     \<Longrightarrow> x \<le> now e div 1000 \<Longrightarrow> \<exists>er. jwt_verify e t = Inl er"
  by (simp add: jwt_verify_def)

lemma protected_no_token:
  "\<not> truthy (bearer_token req)
     \<Longrightarrow> protected h e db req
         = (\<lparr> status = 401, payload = msg ''No token, authorization denied'' \<rparr>, db)"
  by (simp add: protected_def auth_def)

lemma protected_verify_fails:
  "truthy (bearer_token req) \<Longrightarrow> jwt_verify e (js_string (bearer_token req)) = Inl er
     \<Longrightarrow> protected h e db req = (\<lparr> status = 401, payload = msg ''Token is not valid'' \<rparr>, db)"
  by (simp add: protected_def auth_def)

lemma protected_subject_gone:
  "truthy (bearer_token req) \<Longrightarrow> jwt_verify e (js_string (bearer_token req)) = Inr cl
     \<Longrightarrow> map_of cl ''id'' = Some (JStr i) \<Longrightarrow> find (\<lambda>u. uid u = i) db = None
     \<Longrightarrow> protected h e db req = (\<lparr> status = 401, payload = msg ''Token is not valid'' \<rparr>, db)"
  by (simp add: protected_def auth_def findById_def)

lemma protected_not_admin:
  "truthy (bearer_token req) \<Longrightarrow> jwt_verify e (js_string (bearer_token req)) = Inr cl
     \<Longrightarrow> map_of cl ''id'' = Some (JStr i) \<Longrightarrow> findById e db i = Inr (Some u)
     \<Longrightarrow> role u \<noteq> ''admin''
     \<Longrightarrow> protected h e db req
         = (\<lparr> status = 403, payload = msg ''Admin access required'' \<rparr>, db)"
  by (simp add: protected_def auth_def adminAuth_def)

text \<open>
  C4: on each of the four protected routes the guard answers 401 and leaves the collection
  alone when the request carries no token, when the verification of the token fails (in
  particular for a malformed token, for one signed with another key, and for one whose
  expiry has passed), and when the subject of a verified token is no document of the
  collection; it answers 403 when the token is verified and its subject is a user whose
  role is not \<^verbatim>\<open>admin\<close>.
\<close>

theorem access_guard:
  assumes "r \<in> set [GetUsers, GetUser, PutUser, DeleteUser]"
  shows "(\<not> truthy (bearer_token req) \<longrightarrow>
            handle r e db req
              = (\<lparr> status = 401, payload = msg ''No token, authorization denied'' \<rparr>, db))
       \<and> (truthy (bearer_token req)
            \<and> (\<exists>er. jwt_verify e (js_string (bearer_token req)) = Inl er) \<longrightarrow>
            handle r e db req = (\<lparr> status = 401, payload = msg ''Token is not valid'' \<rparr>, db))
       \<and> (truthy (bearer_token req) \<and> jwt_decode e (js_string (bearer_token req)) = None \<longrightarrow>
            handle r e db req = (\<lparr> status = 401, payload = msg ''Token is not valid'' \<rparr>, db))
       \<and> (truthy (bearer_token req)
            \<and> (\<exists>tk. jwt_decode e (js_string (bearer_token req)) = Some tk
                  \<and> signed_with tk \<noteq> JWT_SECRET e) \<longrightarrow>
            handle r e db req = (\<lparr> status = 401, payload = msg ''Token is not valid'' \<rparr>, db))
       \<and> (truthy (bearer_token req)
            \<and> (\<exists>tk x. jwt_decode e (js_string (bearer_token req)) = Some tk
                  \<and> map_of (claims tk) ''exp'' = Some (JNum x) \<and> x \<le> now e div 1000) \<longrightarrow>
            handle r e db req = (\<lparr> status = 401, payload = msg ''Token is not valid'' \<rparr>, db))
       \<and> (truthy (bearer_token req)
            \<and> (\<exists>cl i. jwt_verify e (js_string (bearer_token req)) = Inr cl
                  \<and> map_of cl ''id'' = Some (JStr i) \<and> find (\<lambda>u. uid u = i) db = None) \<longrightarrow>
            handle r e db req = (\<lparr> status = 401, payload = msg ''Token is not valid'' \<rparr>, db))
       \<and> (truthy (bearer_token req)
            \<and> (\<exists>cl i u. jwt_verify e (js_string (bearer_token req)) = Inr cl
                  \<and> map_of cl ''id'' = Some (JStr i) \<and> findById e db i = Inr (Some u)
                  \<and> role u \<noteq> ''admin'') \<longrightarrow>
            handle r e db req
              = (\<lparr> status = 403, payload = msg ''Admin access required'' \<rparr>, db))"
proof -
  obtain h where h: "handle r = protected h"
    using handle_protected [OF assms(1)] by blast
  show ?thesis
    unfolding h
    using protected_no_token [of req h e db] protected_verify_fails [of req e _ h db]
      protected_subject_gone [of req e _ _ db h] protected_not_admin [of req e _ _ db _ h]
      jwt_verify_malformed [of e] jwt_verify_tampered [of e] jwt_verify_expired [of e]
    by (intro conjI impI; (elim conjE exE)?; blast)
qed

theorem access_guard_witness:
  "handle GetUsers sample_env seeded (admin_request \<lparr> header_Authorization := None \<rparr>)
     = (\<lparr> status = 401, payload = msg ''No token, authorization denied'' \<rparr>, seeded)
   \<and> handle GetUser sample_env seeded
         (admin_request \<lparr> header_Authorization := Some ''Bearer not-a-token'' \<rparr>)
       = (\<lparr> status = 401, payload = msg ''Token is not valid'' \<rparr>, seeded)
   \<and> handle PutUser sample_env seeded
         (admin_request \<lparr> header_Authorization := Some ''Bearer forged-token'' \<rparr>)
       = (\<lparr> status = 401, payload = msg ''Token is not valid'' \<rparr>, seeded)
   \<and> handle DeleteUser sample_env seeded
         (admin_request \<lparr> header_Authorization := Some ''Bearer old-token'' \<rparr>)
       = (\<lparr> status = 401, payload = msg ''Token is not valid'' \<rparr>, seeded)
   \<and> handle DeleteUser sample_env seeded
         (admin_request \<lparr> header_Authorization := Some ''Bearer gone-token'' \<rparr>)
       = (\<lparr> status = 401, payload = msg ''Token is not valid'' \<rparr>, seeded)
   \<and> handle GetUsers sample_env seeded
         (admin_request \<lparr> header_Authorization := Some ''Bearer john-token'' \<rparr>)
       = (\<lparr> status = 403, payload = msg ''Admin access required'' \<rparr>, seeded)"
proof -
  have absent:
    "handle GetUsers sample_env seeded (admin_request \<lparr> header_Authorization := None \<rparr>)
       = (\<lparr> status = 401, payload = msg ''No token, authorization denied'' \<rparr>, seeded)"
    using access_guard [of GetUsers "admin_request \<lparr> header_Authorization := None \<rparr>"
        sample_env seeded]
    by (simp add: bearer_token_def truthy_def admin_request_def)
  have malformed:
    "handle GetUser sample_env seeded
       (admin_request \<lparr> header_Authorization := Some ''Bearer not-a-token'' \<rparr>)
       = (\<lparr> status = 401, payload = msg ''Token is not valid'' \<rparr>, seeded)"
    using access_guard [of GetUser
        "admin_request \<lparr> header_Authorization := Some ''Bearer not-a-token'' \<rparr>"
        sample_env seeded]
    by (simp add: bearer_token_def truthy_def js_string_def admin_request_def sample_env_def
          sample_decode_def)
  have forged:
    "handle PutUser sample_env seeded
       (admin_request \<lparr> header_Authorization := Some ''Bearer forged-token'' \<rparr>)
       = (\<lparr> status = 401, payload = msg ''Token is not valid'' \<rparr>, seeded)"
    using access_guard [of PutUser
        "admin_request \<lparr> header_Authorization := Some ''Bearer forged-token'' \<rparr>"
        sample_env seeded]
    by (simp add: bearer_token_def truthy_def js_string_def admin_request_def sample_env_def
          sample_decode_def sample_token_def)
  have expired:
    "handle DeleteUser sample_env seeded
       (admin_request \<lparr> header_Authorization := Some ''Bearer old-token'' \<rparr>)
       = (\<lparr> status = 401, payload = msg ''Token is not valid'' \<rparr>, seeded)"
    using access_guard [of DeleteUser
        "admin_request \<lparr> header_Authorization := Some ''Bearer old-token'' \<rparr>"
        sample_env seeded]
    by (simp add: bearer_token_def truthy_def js_string_def admin_request_def sample_env_def
          sample_decode_def sample_token_def)
  have gone:
    "handle DeleteUser sample_env seeded
       (admin_request \<lparr> header_Authorization := Some ''Bearer gone-token'' \<rparr>)
       = (\<lparr> status = 401, payload = msg ''Token is not valid'' \<rparr>, seeded)"
    using access_guard [of DeleteUser
        "admin_request \<lparr> header_Authorization := Some ''Bearer gone-token'' \<rparr>"
        sample_env seeded]
    by (simp add: bearer_token_def truthy_def js_string_def admin_request_def sample_env_def
          sample_decode_def sample_token_def jwt_verify_def seeded_def)
  have not_admin:
    "handle GetUsers sample_env seeded
       (admin_request \<lparr> header_Authorization := Some ''Bearer john-token'' \<rparr>)
       = (\<lparr> status = 403, payload = msg ''Admin access required'' \<rparr>, seeded)"
    using access_guard [of GetUsers
        "admin_request \<lparr> header_Authorization := Some ''Bearer john-token'' \<rparr>"
        sample_env seeded]
    by (simp add: bearer_token_def truthy_def js_string_def admin_request_def sample_env_def
          sample_decode_def sample_token_def jwt_verify_def findById_def seeded_def)
  from absent malformed forged expired gone not_admin show ?thesis
    by (intro conjI)
qed

section \<open>The listing\<close>

lemma length_order_by: "length (order_by d k xs) = length xs"
  by (simp add: order_by_def)

lemma length_sort_users: "length (sort_users s us) = length us"
  by (simp add: sort_users_def Let_def length_order_by)

lemma length_limit_docs: "1 \<le> n \<Longrightarrow> int (length (limit_docs n xs)) \<le> n"
  by (simp add: limit_docs_def)

lemma ceiling_bounds:
  fixes t l :: int
  assumes "1 \<le> l"
  shows "(\<lceil>real_of_int t / real_of_int l\<rceil> - 1) * l < t
         \<and> t \<le> \<lceil>real_of_int t / real_of_int l\<rceil> * l"
proof -
  define d where "d = (- t) div l"
  define m where "m = (- t) mod l"
  have c: "\<lceil>real_of_int t / real_of_int l\<rceil> = - d"
    unfolding d_def by (rule ceiling_divide_eq_div)
  have m: "0 \<le> m" "m < l"
    using assms by (simp_all add: m_def)
  have "d * l + m = - t"
    by (simp add: d_def m_def)
  then have dl: "d * l = - t - m"
    by simp
  have "(- d - 1) * l = - (d * l) - l" and "- d * l = - (d * l)"
    by (simp_all add: algebra_simps)
  with dl m show ?thesis
    unfolding c by simp
qed

text \<open>
  C5: when the effective page \<open>p\<close> and the effective limit \<open>l\<close> are integers, both at
  least 1, and \<open>(p - 1) * l\<close> and the number of documents the filter selects are below
  \<open>2 ^ 53\<close>, the listing either is refused by the store (the search pattern does not
  compile, or the sort path is not accepted) and answers 500, or answers 200 with at
  most \<open>l\<close> records; \<open>total\<close> is the number of documents selected and \<open>pages\<close> is \<open>total / l\<close>
  rounded up, the least number of pages of \<open>l\<close> records that hold \<open>total\<close> records;
  when nothing is selected the answer is still 200, with no record and 0 pages.
\<close>

theorem listing_page_bounds:
  assumes "page_param (query req) = Num p" and "limit_param (query req) = Num l"
    and "1 \<le> p" and "1 \<le> l" and "(p - 1) * l \<le> 9007199254740991"
    and "int (length (matching e db (buildQuery (query req)))) \<le> 9007199254740991"
  shows "if query_error e (buildQuery (query req))
            \<or> \<not> sort_path_ok e (fst (sort_param (query req)))
         then get_users e db req = (\<lparr> status = 500, payload = server_error \<rparr>, db)
         else (\<exists>docs pages.
           get_users e db req
             = (\<lparr> status = 200,
                  payload =
                    JObj [(''users'', JArr docs),
                          (''pagination'',
                           JObj [(''current'', JNum p),
                                 (''pages'', JNum pages),
                                 (''total'',
                                  JNum (int (length (matching e db (buildQuery (query req))))))])] \<rparr>,
                db)
           \<and> int (length docs) \<le> l
           \<and> pages = \<lceil>real_of_int (int (length (matching e db (buildQuery (query req)))))
                        / real_of_int l\<rceil>
           \<and> (pages - 1) * l < int (length (matching e db (buildQuery (query req))))
           \<and> int (length (matching e db (buildQuery (query req)))) \<le> pages * l
           \<and> (matching e db (buildQuery (query req)) = [] \<longrightarrow> docs = [] \<and> pages = 0))"
proof (cases "query_error e (buildQuery (query req))
               \<or> \<not> sort_path_ok e (fst (sort_param (query req)))")
  case True
  then have "\<exists>er. find_page e db (buildQuery (query req)) (getPaginationSort (query req))
                    (query req) = Inl er"
    by (auto simp: find_page_def getPaginationSort_def Let_def)
  then have "get_users e db req = (\<lparr> status = 500, payload = server_error \<rparr>, db)"
    by (auto simp: get_users_def Let_def)
  with True show ?thesis
    by simp
next
  case False
  let ?q = "query req"
  let ?ps = "getPaginationSort ?q"
  let ?m = "matching e db (buildQuery ?q)"
  let ?users = "take (nat l) (drop (nat ((p - 1) * l)) (sort_users (sort_param ?q) ?m))"
  let ?pages = "\<lceil>real_of_int (int (length ?m)) / real_of_int l\<rceil>"
  have lim: "limit ?ps = Num l" and srt: "sortBy ?ps = sort_param ?q"
    using assms(2) by (simp_all add: getPaginationSort_def Let_def)
  have sk: "skip ?ps = Num ((p - 1) * l)" and nonneg: "0 \<le> (p - 1) * l"
    using skip_exact [OF assms(1,2)] page_before_bound [OF assms(3,4,5)] by simp_all
  have l0: "l \<noteq> 0"
    using assms(4) by simp
  have fp: "find_page e db (buildQuery ?q) ?ps ?q = Inr ?users"
    using False nonneg assms(4) by (simp add: find_page_def srt sk lim limit_docs_def)
  have cd: "countDocuments e db (buildQuery ?q) = Inr (int (length ?m))"
    using False by (simp add: countDocuments_def)
  have tot: "to_number (int (length ?m)) = Num (int (length ?m))"
    using assms(6) by (simp add: to_number_def)
  have res: "get_users e db req
      = (\<lparr> status = 200,
           payload =
             JObj [(''users'', JArr (map (doc_json [''password'']) ?users)),
                   (''pagination'',
                    JObj [(''current'', JNum p), (''pages'', JNum ?pages),
                          (''total'', JNum (int (length ?m)))])] \<rparr>, db)"
    using l0
    by (simp add: get_users_def Let_def fp cd lim tot assms(1) num_json_def num_ceil_div_def)
  have len: "int (length (map (doc_json [''password'']) ?users)) \<le> l"
    using assms(4) by simp
  have bounds: "(?pages - 1) * l < int (length ?m) \<and> int (length ?m) \<le> ?pages * l"
    using ceiling_bounds [OF assms(4)] by blast
  have empty: "map (doc_json [''password'']) ?users = [] \<and> ?pages = 0" if "?m = []"
  proof -
    have "length (sort_users (sort_param ?q) ?m) = 0"
      using that by (simp add: length_sort_users)
    then have "sort_users (sort_param ?q) ?m = []"
      by simp
    with that show ?thesis
      by simp
  qed
  have "\<exists>docs pages.
           get_users e db req
             = (\<lparr> status = 200,
                  payload =
                    JObj [(''users'', JArr docs),
                          (''pagination'',
                           JObj [(''current'', JNum p), (''pages'', JNum pages),
                                 (''total'', JNum (int (length ?m)))])] \<rparr>, db)
           \<and> int (length docs) \<le> l
           \<and> pages = ?pages
           \<and> (pages - 1) * l < int (length ?m)
           \<and> int (length ?m) \<le> pages * l
           \<and> (?m = [] \<longrightarrow> docs = [] \<and> pages = 0)"
    apply (rule exI [of _ "map (doc_json [''password'']) ?users"])
    apply (rule exI [of _ ?pages])
    using res len bounds empty by simp
  with False show ?thesis
    by simp
qed

theorem listing_page_bounds_witness:
  "(\<exists>docs pages.
     get_users sample_env seeded page_request
       = (\<lparr> status = 200,
            payload =
              JObj [(''users'', JArr docs),
                    (''pagination'',
                     JObj [(''current'', JNum 2), (''pages'', JNum pages),
                           (''total'', JNum 4)])] \<rparr>,
          seeded)
     \<and> int (length docs) \<le> 3 \<and> pages = 2)
   \<and> get_users sample_env seeded
         (page_request \<lparr> query := query page_request \<lparr> q_search := Some ''('' \<rparr> \<rparr>)
       = (\<lparr> status = 500, payload = server_error \<rparr>, seeded)"
proof -
  have q: "query page_request = no_query \<lparr> q_page := Some ''2'', q_limit := Some ''3'' \<rparr>"
    by (simp add: page_request_def admin_request_def)
  have page: "page_param (query page_request) = Num 2"
    and lim: "limit_param (query page_request) = Num 3"
    by (simp_all add: q no_query_def parse_defs)
  have ok: "\<not> (query_error sample_env (buildQuery (query page_request))
              \<or> \<not> sort_path_ok sample_env (fst (sort_param (query page_request))))"
    by (simp add: q no_query_def query_error_def buildQuery_def truthy_def sort_param_def
          sample_env_def)
  have m: "matching sample_env seeded (buildQuery (query page_request)) = seeded"
    by (simp add: q no_query_def buildQuery_def truthy_def seeded_def store_defs)
  have len: "length seeded = 4"
    by (simp add: seeded_def)
  have h: "(1::int) \<le> 2" "(1::int) \<le> 3" "(2 - 1) * 3 \<le> (9007199254740991::int)"
    "int (length (matching sample_env seeded (buildQuery (query page_request))))
       \<le> 9007199254740991"
    by (simp_all add: m len)
  have first: "\<exists>docs pages.
     get_users sample_env seeded page_request
       = (\<lparr> status = 200,
            payload =
              JObj [(''users'', JArr docs),
                    (''pagination'',
                     JObj [(''current'', JNum 2), (''pages'', JNum pages),
                           (''total'', JNum 4)])] \<rparr>,
          seeded)
     \<and> int (length docs) \<le> 3 \<and> pages = 2"
    using listing_page_bounds [OF page lim h] ok
    unfolding m len by (auto simp: ceiling_divide_eq_div)
  let ?bad = "page_request \<lparr> query := query page_request \<lparr> q_search := Some ''('' \<rparr> \<rparr>"
  have page': "page_param (query ?bad) = Num 2" and lim': "limit_param (query ?bad) = Num 3"
    by (simp_all add: q no_query_def parse_defs)
  have bad: "query_error sample_env (buildQuery (query ?bad))"
    by (simp add: q no_query_def query_error_def buildQuery_def truthy_def sample_env_def
          sample_regex_def in_fragment_def other_meta_def)
  have few: "int (length (matching sample_env seeded (buildQuery (query ?bad))))
      \<le> 9007199254740991"
  proof -
    have "length (matching sample_env seeded (buildQuery (query ?bad))) \<le> length seeded"
      by (simp add: matching_def)
    then show ?thesis
      by (simp add: len)
  qed
  have second: "get_users sample_env seeded ?bad
      = (\<lparr> status = 500, payload = server_error \<rparr>, seeded)"
    using listing_page_bounds [OF page' lim' h(1,2,3) few] bad
    by simp
  from first second show ?thesis
    by (rule conjI)
qed

section \<open>The matchers decide the language of an expression\<close>

lemma nil_in_conc: "[] \<in> conc A B \<longleftrightarrow> [] \<in> A \<and> [] \<in> B"
  by (auto simp: conc_def)

lemma nullable_lang: "nullable r \<longleftrightarrow> [] \<in> lang r"
  by (induction r) (auto simp: nil_in_conc intro: star_nil)

lemma conc_empty: "conc {} B = {}" "conc A {} = {}"
  by (auto simp: conc_def)

lemma conc_nil: "conc {[]} B = B"
  by (auto simp: conc_def)

lemma lang_alt: "lang (alt r s) = lang r \<union> lang s"
  by (induction r s rule: alt.induct) auto

lemma lang_seq: "lang (seq r s) = conc (lang r) (lang s)"
  by (induction r s rule: seq.induct) (simp_all add: conc_empty conc_nil)

lemma left_quot_conc:
  "left_quot c (conc A B) = conc (left_quot c A) B \<union> (if [] \<in> A then left_quot c B else {})"
proof (intro set_eqI iffI)
  fix w assume "w \<in> left_quot c (conc A B)"
  then obtain u v where uv: "c # w = u @ v" "u \<in> A" "v \<in> B"
    by (auto simp: left_quot_def conc_def)
  show "w \<in> conc (left_quot c A) B \<union> (if [] \<in> A then left_quot c B else {})"
  proof (cases u)
    case Nil
    with uv show ?thesis by (auto simp: left_quot_def)
  next
    case (Cons x xs)
    with uv have "x = c" "w = xs @ v" by simp_all
    with uv Cons show ?thesis by (auto simp: left_quot_def conc_def)
  qed
next
  fix w assume w: "w \<in> conc (left_quot c A) B \<union> (if [] \<in> A then left_quot c B else {})"
  show "w \<in> left_quot c (conc A B)"
  proof (cases "w \<in> conc (left_quot c A) B")
    case True
    then obtain u v where "w = u @ v" "c # u \<in> A" "v \<in> B"
      by (auto simp: conc_def left_quot_def)
    then have "c # w = (c # u) @ v \<and> c # u \<in> A \<and> v \<in> B"
      by simp
    then show ?thesis
      unfolding left_quot_def conc_def by blast
  next
    case False
    with w have "[] \<in> A" "c # w \<in> B"
      by (auto simp: left_quot_def split: if_splits)
    then have "c # w = [] @ (c # w) \<and> [] \<in> A \<and> c # w \<in> B"
      by simp
    then show ?thesis
      unfolding left_quot_def conc_def by blast
  qed
qed

lemma star_step:
  "x \<in> star A \<Longrightarrow> x = c # w \<Longrightarrow> \<exists>u v. w = u @ v \<and> c # u \<in> A \<and> v \<in> star A"
proof (induction arbitrary: w rule: star.induct)
  case star_nil
  then show ?case by simp
next
  case (star_app u v)
  show ?case
  proof (cases u)
    case Nil
    with star_app show ?thesis by simp
  next
    case (Cons y ys)
    with star_app.prems have "y = c" "w = ys @ v" by simp_all
    with star_app.hyps Cons show ?thesis by blast
  qed
qed

lemma left_quot_star: "left_quot c (star A) = conc (left_quot c A) (star A)"
proof (intro set_eqI iffI)
  fix w assume "w \<in> left_quot c (star A)"
  then have "c # w \<in> star A" by (simp add: left_quot_def)
  from star_step [OF this refl] show "w \<in> conc (left_quot c A) (star A)"
    by (auto simp: conc_def left_quot_def)
next
  fix w assume "w \<in> conc (left_quot c A) (star A)"
  then obtain u v where "w = u @ v" "c # u \<in> A" "v \<in> star A"
    by (auto simp: conc_def left_quot_def)
  then have "(c # u) @ v \<in> star A" by (blast intro: star_app)
  with \<open>w = u @ v\<close> show "w \<in> left_quot c (star A)" by (simp add: left_quot_def)
qed

lemma lang_deriv: "lang (deriv c r) = left_quot c (lang r)"
proof (induction r)
  case (Seq r s)
  then show ?case
    by (simp add: lang_alt lang_seq left_quot_conc nullable_lang)
next
  case (Rep r)
  then show ?case
    by (simp add: lang_seq left_quot_star)
qed (auto simp: left_quot_def lang_alt)

lemma rmatch_lang: "rmatch r s \<longleftrightarrow> s \<in> lang r"
  unfolding rmatch_def
  by (induction s arbitrary: r) (simp_all add: nullable_lang lang_deriv left_quot_def)

lemma matches_at_lang: "matches_at r s \<longleftrightarrow> (\<exists>p. prefix p s \<and> p \<in> lang r)"
proof (induction s arbitrary: r)
  case Nil
  show ?case by (simp add: nullable_lang)
next
  case (Cons c cs)
  have "(\<exists>p. prefix p (c # cs) \<and> p \<in> lang r)
          \<longleftrightarrow> [] \<in> lang r \<or> (\<exists>p. prefix p cs \<and> c # p \<in> lang r)"
    by (auto simp: prefix_Cons)
  with Cons [of "deriv c r"] show ?case
    by (simp add: nullable_lang lang_deriv left_quot_def)
qed

lemma rsearch_lang: "rsearch r s \<longleftrightarrow> (\<exists>m. sublist m s \<and> m \<in> lang r)"
proof (induction s)
  case Nil
  show ?case by (simp add: nullable_lang)
next
  case (Cons c cs)
  have "rsearch r (c # cs) \<longleftrightarrow> matches_at r (c # cs) \<or> rsearch r cs"
    by simp
  also have "\<dots> \<longleftrightarrow> (\<exists>p. prefix p (c # cs) \<and> p \<in> lang r) \<or> (\<exists>m. sublist m cs \<and> m \<in> lang r)"
    by (simp only: matches_at_lang Cons)
  also have "\<dots> \<longleftrightarrow> (\<exists>m. sublist m (c # cs) \<and> m \<in> lang r)"
    by (auto simp: sublist_Cons_right)
  finally show ?case .
qed

section \<open>The search clause\<close>

lemma seq_Empty: "seq Empty r = r"
  by (cases r) simp_all

lemma matches_at_Nothing: "\<not> matches_at Nothing s"
  by (induction s) simp_all

lemma matches_at_plain:
  "CHR ''.'' \<notin> set t
     \<Longrightarrow> matches_at (fragment_rexp t) s \<longleftrightarrow> prefix (map to_lower t) (map to_lower s)"
proof (induction t arbitrary: s)
  case Nil
  show ?case by (cases s) simp_all
next
  case (Cons c cs)
  show ?case
  proof (cases s)
    case Nil
    with Cons.prems show ?thesis by auto
  next
    case (Cons x xs)
    then show ?thesis
      using Cons.IH [of xs] Cons.prems by (auto simp: seq_Empty matches_at_Nothing)
  qed
qed

lemma nullable_plain: "CHR ''.'' \<notin> set t \<Longrightarrow> nullable (fragment_rexp t) \<longleftrightarrow> t = []"
  by (cases t) auto

lemma fragment_match_plain:
  assumes "CHR ''.'' \<notin> set t"
  shows "fragment_match t s \<longleftrightarrow> sublist (map to_lower t) (map to_lower s)"
  unfolding fragment_match_def
proof (induction s)
  case Nil
  show ?case by (simp add: nullable_plain [OF assms])
next
  case (Cons x xs)
  have "matches_at (fragment_rexp t) (x # xs)
          \<longleftrightarrow> prefix (map to_lower t) (map to_lower (x # xs))"
    using assms by (rule matches_at_plain)
  with Cons show ?case
    by (simp only: rsearch.simps list.map sublist_Cons_right)
qed

text \<open>
  C8, as stated: for every search term, also one with special characters, the clause
  selects exactly the records whose name or email contains the term, whatever the case.
  The term is handed to the store as a pattern: \<^verbatim>\<open>j.hn\<close> selects John Doe, whose name
  and email do not contain \<^verbatim>\<open>j.hn\<close>.
\<close>

theorem search_term_is_a_pattern_counterexample:
  "search_clause sample_env (buildQuery (no_query \<lparr> q_search := Some ''j.hn'' \<rparr>)) john
   \<and> \<not> sublist (toLowerCase ''j.hn'') (toLowerCase (name john))
   \<and> \<not> sublist (toLowerCase ''j.hn'') (toLowerCase (email john))"
  by code_simp

text \<open>
  C8, amended: for every non-empty search term, the clause hands the term, as it is, to
  the store as a regular expression with the option \<^verbatim>\<open>i\<close>, and selects the records
  whose name or whose email that expression matches. For a term made of ordinary
  characters only (none of \<^verbatim>\<open>. \ ^ $ | ? * + ( ) [ ] { }\<close>), which the store's engine
  matches literally, letters in either case, these are exactly the records whose name or
  whose email contains the term as a substring, letters compared without case.
\<close>

theorem search_clause_plain_term:
  assumes "q_search q = Some t" and "t \<noteq> []"
  shows "(search_clause e (buildQuery q) u
            \<longleftrightarrow> (\<exists>m. regex_compile e t = Some m \<and> (m (name u) \<or> m (email u))))
         \<and> (in_fragment t \<and> CHR ''.'' \<notin> set t \<and> regex_compile e t = Some (fragment_match t) \<longrightarrow>
              (search_clause e (buildQuery q) u
                 \<longleftrightarrow> sublist (toLowerCase t) (toLowerCase (name u))
                     \<or> sublist (toLowerCase t) (toLowerCase (email u))))"
proof -
  have pattern: "or_regex (buildQuery q) = Some t"
    using assms by (simp add: buildQuery_def truthy_def)
  have general: "search_clause e (buildQuery q) u
      \<longleftrightarrow> (\<exists>m. regex_compile e t = Some m \<and> (m (name u) \<or> m (email u)))"
    by (simp add: search_clause_def pattern split: option.splits)
  have "search_clause e (buildQuery q) u
          \<longleftrightarrow> sublist (toLowerCase t) (toLowerCase (name u))
              \<or> sublist (toLowerCase t) (toLowerCase (email u))"
    if "CHR ''.'' \<notin> set t" and "regex_compile e t = Some (fragment_match t)"
    using that by (simp add: general fragment_match_plain toLowerCase_def)
  with general show ?thesis
    by blast
qed

theorem search_clause_plain_term_witness:
  "search_clause sample_env (buildQuery (no_query \<lparr> q_search := Some ''jo'' \<rparr>)) john
   \<and> sublist (toLowerCase ''jo'') (toLowerCase (name john))
   \<and> \<not> search_clause sample_env (buildQuery (no_query \<lparr> q_search := Some ''jo'' \<rparr>)) jane"
proof -
  have h: "q_search (no_query \<lparr> q_search := Some ''jo'' \<rparr>) = Some ''jo''" "''jo'' \<noteq> []"
    by simp_all
  have f: "in_fragment ''jo'' \<and> CHR ''.'' \<notin> set ''jo''
      \<and> regex_compile sample_env ''jo'' = Some (fragment_match ''jo'')"
    by (simp add: sample_env_def sample_regex_def in_fragment_def other_meta_def)
  have "search_clause sample_env (buildQuery (no_query \<lparr> q_search := Some ''jo'' \<rparr>)) john
      \<longleftrightarrow> sublist (toLowerCase ''jo'') (toLowerCase (name john))
          \<or> sublist (toLowerCase ''jo'') (toLowerCase (email john))"
    and "search_clause sample_env (buildQuery (no_query \<lparr> q_search := Some ''jo'' \<rparr>)) jane
      \<longleftrightarrow> sublist (toLowerCase ''jo'') (toLowerCase (name jane))
          \<or> sublist (toLowerCase ''jo'') (toLowerCase (email jane))"
    using search_clause_plain_term [OF h, of sample_env john]
      search_clause_plain_term [OF h, of sample_env jane] f
    by blast+
  moreover have "sublist (toLowerCase ''jo'') (toLowerCase (name john))"
    and "\<not> sublist (toLowerCase ''jo'') (toLowerCase (name jane))"
    and "\<not> sublist (toLowerCase ''jo'') (toLowerCase (email jane))"
    by (simp_all add: john_def jane_def toLowerCase_def to_lower_def sublist_Cons_right)
  ultimately show ?thesis
    by simp
qed

section \<open>Updates\<close>

lemma replace_doc_same_data:
  assumes "find (\<lambda>u. uid u = i) db = Some u" and "f u' = f u"
  shows "map f (replace_doc i u' db) = map f db"
  using assms by (induction db) (auto split: if_splits)

lemma apply_no_fields: "apply_updates no_fields t u = u \<lparr> updatedAt := t \<rparr>"
  by (simp add: apply_updates_def no_fields_def)

lemma update_failures_no_fields: "update_failures no_fields = []"
  by (simp add: update_failures_def no_fields_def failures_def)

lemma findByIdAndUpdate_no_fields:
  "findByIdAndUpdate e db i no_fields t =
     (if \<not> is_object_id e i then Inl (CastError i)
      else (case find (\<lambda>u. uid u = i) db of
              None \<Rightarrow> Inr (None, db)
            | Some u \<Rightarrow>
                Inr (Some (u \<lparr> updatedAt := t \<rparr>), replace_doc i (u \<lparr> updatedAt := t \<rparr>) db)))"
  by (simp add: findByIdAndUpdate_def update_failures_no_fields apply_no_fields
        split: option.splits) (simp add: no_fields_def)

lemma put_user_no_fields:
  assumes "body req = no_fields"
  shows "put_user e db req =
     (if \<not> is_object_id e (params_id req) then (\<lparr> status = 500, payload = server_error \<rparr>, db)
      else (case find (\<lambda>u. uid u = params_id req) db of
              None \<Rightarrow> (\<lparr> status = 404, payload = msg ''User not found'' \<rparr>, db)
            | Some u \<Rightarrow>
                (\<lparr> status = 200,
                   payload = doc_json [''password''] (u \<lparr> updatedAt := now e \<rparr>) \<rparr>,
                 replace_doc (params_id req) (u \<lparr> updatedAt := now e \<rparr>) db)))"
proof -
  have "\<not> truthy (b_password no_fields)"
    by (simp add: no_fields_def truthy_def)
  then show ?thesis
    by (simp add: put_user_def Let_def assms findByIdAndUpdate_no_fields split: option.splits)
qed

lemma put_user_no_fields_data:
  assumes "body req = no_fields"
  shows "map (\<lambda>u. u \<lparr> updatedAt := 0 \<rparr>) (snd (put_user e db req))
           = map (\<lambda>u. u \<lparr> updatedAt := 0 \<rparr>) db"
  by (simp add: put_user_no_fields [OF assms] replace_doc_same_data split: option.splits)

lemma protected_collection:
  "snd (protected h e db req) = db \<or> protected h e db req = h e db req"
  by (simp add: protected_def split: sum.splits)

text \<open>
  C9: an update with an empty field set leaves every field but \<^verbatim>\<open>updatedAt\<close> of every
  document as it was, whatever the route answers; when the id is that of a document, the
  handler answers 200 and the document differs from the stored one in \<^verbatim>\<open>updatedAt\<close>
  only, which is the time of the request.
\<close>

theorem empty_update_keeps_data:
  assumes "body req = no_fields"
  shows "map (\<lambda>u. u \<lparr> updatedAt := 0 \<rparr>) (snd (handle PutUser e db req))
           = map (\<lambda>u. u \<lparr> updatedAt := 0 \<rparr>) db
         \<and> (is_object_id e (params_id req) \<and> find (\<lambda>u. uid u = params_id req) db = Some u \<longrightarrow>
              put_user e db req
                = (\<lparr> status = 200,
                     payload = doc_json [''password''] (u \<lparr> updatedAt := now e \<rparr>) \<rparr>,
                   replace_doc (params_id req) (u \<lparr> updatedAt := now e \<rparr>) db))"
proof -
  have "map (\<lambda>u. u \<lparr> updatedAt := 0 \<rparr>) (snd (protected put_user e db req))
           = map (\<lambda>u. u \<lparr> updatedAt := 0 \<rparr>) db"
    using protected_collection [of put_user e db req]
      put_user_no_fields_data [OF assms, of e db]
    by auto
  then show ?thesis
    by (simp add: put_user_no_fields [OF assms])
qed

theorem empty_update_keeps_data_witness:
  "handle PutUser sample_env seeded admin_request
     = (\<lparr> status = 200, payload = doc_json [''password''] (john \<lparr> updatedAt := 9000 \<rparr>) \<rparr>,
        [seeded ! 0, john \<lparr> updatedAt := 9000 \<rparr>, seeded ! 2, seeded ! 3])
   \<and> map (\<lambda>u. u \<lparr> updatedAt := 0 \<rparr>) (snd (handle PutUser sample_env seeded admin_request))
       = map (\<lambda>u. u \<lparr> updatedAt := 0 \<rparr>) seeded"
proof -
  have b: "body admin_request = no_fields"
    by (simp add: admin_request_def)
  have guard: "handle PutUser sample_env seeded admin_request
      = put_user sample_env seeded admin_request"
    by (simp add: sample_defs guard_defs truthy_def js_string_def findById_def)
  have found: "is_object_id sample_env (params_id admin_request)
      \<and> find (\<lambda>u. uid u = params_id admin_request) seeded = Some john"
    by (simp add: john_def sample_defs)
  from empty_update_keeps_data [OF b, of sample_env seeded john] found guard
  show ?thesis
    by (simp add: john_def sample_defs)
qed

lemma put_user_password:
  "truthy (b_password (body req))
     \<Longrightarrow> put_user e db req = (\<lparr> status = 500, payload = server_error \<rparr>, db)"
  by (simp add: put_user_def Let_def routes_bcrypt_def)

text \<open>
  C3, at a request whose field set has the secret: the administrator sets the password of
  the user \<^verbatim>\<open>u2\<close> to \<^verbatim>\<open>newsecret\<close>. The handler reads \<^verbatim>\<open>bcrypt\<close>, which
  \<^verbatim>\<open>routes/user.js\<close> does not bind; the route answers 500 and the collection is as it
  was: nothing is hashed or stored, and \<^verbatim>\<open>updatedAt\<close> is not refreshed. The same request
  for an id that no document has is answered 500 as well, not 404.
\<close>

theorem password_update_is_rejected:
  "handle PutUser sample_env seeded password_request
     = (\<lparr> status = 500, payload = msg ''Server error'' \<rparr>, seeded)
   \<and> handle PutUser sample_env seeded (password_request \<lparr> params_id := ''u9'' \<rparr>)
       = (\<lparr> status = 500, payload = msg ''Server error'' \<rparr>, seeded)"
proof -
  have "truthy (b_password (body password_request))"
    and "truthy (b_password (body (password_request \<lparr> params_id := ''u9'' \<rparr>)))"
    by (simp_all add: password_request_def sample_defs truthy_def)
  then have "put_user sample_env seeded password_request
      = (\<lparr> status = 500, payload = server_error \<rparr>, seeded)"
    and "put_user sample_env seeded (password_request \<lparr> params_id := ''u9'' \<rparr>)
      = (\<lparr> status = 500, payload = server_error \<rparr>, seeded)"
    by (simp_all only: put_user_password)
  moreover have "handle PutUser sample_env seeded password_request
      = put_user sample_env seeded password_request"
    and "handle PutUser sample_env seeded (password_request \<lparr> params_id := ''u9'' \<rparr>)
      = put_user sample_env seeded (password_request \<lparr> params_id := ''u9'' \<rparr>)"
    by (simp_all add: password_request_def sample_defs guard_defs truthy_def js_string_def
          findById_def)
  ultimately show ?thesis
    by (simp add: server_error_def)
qed

section \<open>Registration and login\<close>

lemma save_new_role: "save_new e db nm em pw rl = Inr u \<Longrightarrow> role u = rl"
  unfolding save_new_def
  by (cases "failures [check_name nm, check_email em, check_password pw, check_role rl]";
      cases nm; cases em; cases pw) (auto split: if_splits)

lemma post_users_created:
  assumes "post_users e db req = (res, db')" and "status res = 201"
  shows "\<exists>u. save_new e db (b_name (body req)) (b_email (body req)) (b_password (body req))
                 (if truthy (b_role (body req)) then js_string (b_role (body req))
                  else ''user'')
               = Inr u
             \<and> res = \<lparr> status = 201,
                        payload = JObj [(''token'', JStr (jwt_encode e (issue_token e u))),
                                        (''user'', public_user u)] \<rparr>
             \<and> db' = db @ [u]"
proof (cases "findOne_email db (b_email (body req))")
  case (Some v)
  with assms show ?thesis
    by (auto simp: post_users_def Let_def)
next
  case None
  show ?thesis
  proof (cases "save_new e db (b_name (body req)) (b_email (body req)) (b_password (body req))
                 (if truthy (b_role (body req)) then js_string (b_role (body req))
                  else ''user'')")
    case (Inl er)
    with None assms show ?thesis
      by (auto simp: post_users_def Let_def)
  next
    case (Inr u)
    with None assms show ?thesis
      by (auto simp: post_users_def Let_def)
  qed
qed

lemma signup_result:
  "post_users sample_env seeded signup_request
     = (\<lparr> status = 201,
          payload = JObj [(''token'', JStr (jwt_encode sample_env (issue_token sample_env eve))),
                          (''user'', public_user eve)] \<rparr>,
        seeded @ [eve])"
  by code_simp

text \<open>
  C10: when a request to the public registration route supplies the role \<^verbatim>\<open>admin\<close> and
  is answered 201, the collection has one more document, its role is \<^verbatim>\<open>admin\<close>, and the
  user of the response has the role \<^verbatim>\<open>admin\<close>.
\<close>

theorem registration_honours_admin_role:
  assumes "b_role (body req) = Some ''admin''"
    and "post_users e db req = (res, db')"
    and "status res = 201"
  shows "\<exists>u. db' = db @ [u] \<and> role u = ''admin''
           \<and> payload res
               = JObj [(''token'', JStr (jwt_encode e (issue_token e u))),
                       (''user'', JObj [(''id'', JStr (uid u)), (''name'', JStr (name u)),
                                        (''email'', JStr (email u)),
                                        (''role'', JStr ''admin'')])]"
proof -
  have rl: "(if truthy (b_role (body req)) then js_string (b_role (body req)) else ''user'')
              = ''admin''"
    using assms(1) by (simp add: truthy_def js_string_def)
  from post_users_created [OF assms(2,3)] obtain u where
    sv: "save_new e db (b_name (body req)) (b_email (body req)) (b_password (body req)) ''admin''
           = Inr u"
    and res: "res = \<lparr> status = 201,
                 payload = JObj [(''token'', JStr (jwt_encode e (issue_token e u))),
                                 (''user'', public_user u)] \<rparr>"
    and db': "db' = db @ [u]"
    unfolding rl by blast
  from sv have "role u = ''admin''"
    by (rule save_new_role)
  with res db' show ?thesis
    by (simp add: public_user_def)
qed

theorem registration_honours_admin_role_witness:
  "status (fst (handle PostUsers sample_env seeded signup_request)) = 201
   \<and> (\<exists>u. snd (handle PostUsers sample_env seeded signup_request) = seeded @ [u]
          \<and> role u = ''admin''
          \<and> payload (fst (handle PostUsers sample_env seeded signup_request))
              = JObj [(''token'', JStr (jwt_encode sample_env (issue_token sample_env u))),
                      (''user'', JObj [(''id'', JStr (uid u)), (''name'', JStr (name u)),
                                       (''email'', JStr (email u)),
                                       (''role'', JStr ''admin'')])])"
proof -
  have r: "b_role (body signup_request) = Some ''admin''"
    by (simp add: signup_request_def)
  have p: "post_users sample_env seeded signup_request
      = (fst (post_users sample_env seeded signup_request),
         snd (post_users sample_env seeded signup_request))"
    by simp
  have s: "status (fst (post_users sample_env seeded signup_request)) = 201"
    by (simp add: signup_result)
  from registration_honours_admin_role [OF r p s] s show ?thesis
    by simp
qed

text \<open>
  C2, at a successful login and a successful registration: the payload signed into the
  token has the subject id, the issue time and an expiry 3600 seconds later, under the
  configured key, and it has no role. (The client reads \<^verbatim>\<open>decoded.role\<close> from this
  token in \<^verbatim>\<open>context/AuthContext.js\<close>.)
\<close>

theorem issued_token_has_no_role:
  "claims (issue_token e u)
     = [(''id'', JStr (uid u)), (''iat'', JNum (now e div 1000)),
        (''exp'', JNum (now e div 1000 + 3600))]
   \<and> signed_with (issue_token e u) = JWT_SECRET e
   \<and> map_of (claims (issue_token e u)) ''role'' = None
   \<and> handle PostLogin sample_env seeded login_request
       = (\<lparr> status = 200,
            payload = JObj [(''token'',
                             JStr (jwt_encode sample_env (issue_token sample_env (seeded ! 0)))),
                            (''user'', public_user (seeded ! 0))] \<rparr>, seeded)
   \<and> handle PostUsers sample_env seeded signup_request
       = (\<lparr> status = 201,
            payload = JObj [(''token'', JStr (jwt_encode sample_env (issue_token sample_env eve))),
                            (''user'', public_user eve)] \<rparr>, seeded @ [eve])"
proof -
  have "claims (issue_token e u)
     = [(''id'', JStr (uid u)), (''iat'', JNum (now e div 1000)),
        (''exp'', JNum (now e div 1000 + 3600))]"
    and "signed_with (issue_token e u) = JWT_SECRET e"
    and "map_of (claims (issue_token e u)) ''role'' = None"
    by (simp_all add: issue_token_def jwt_sign_def)
  moreover have "handle PostLogin sample_env seeded login_request
       = (\<lparr> status = 200,
            payload = JObj [(''token'',
                             JStr (jwt_encode sample_env (issue_token sample_env (seeded ! 0)))),
                            (''user'', public_user (seeded ! 0))] \<rparr>, seeded)"
    by code_simp
  ultimately show ?thesis
    by (simp add: signup_result)
qed

end
